theory Spec2Isabelle
  imports Complex_Main "HOL-Library.Sublist" "HOL-Library.AList"
begin

section \<open>JavaScript values and string helpers\<close>

text \<open>
  Strings are lists of 8-bit characters. The source works on UTF-16 strings; the
  character classes below are the ASCII part of the JavaScript classes, so the model
  agrees with the source on ASCII text (the process table, command lines and JSON that
  the program reads).
\<close>

datatype jsval =
    JUndefined
  | JNull
  | JBool bool
  | JNum rat
  | JStr string
  | JArr "jsval list"
  | JObj "(string \<times> jsval) list"

text \<open>An object is the list of its own enumerable properties, in enumeration order
  (what \<^verbatim>\<open>Object.entries\<close> returns).\<close>

fun truthy :: "jsval \<Rightarrow> bool" where
  "truthy JUndefined = False"
| "truthy JNull = False"
| "truthy (JBool b) = b"
| "truthy (JNum n) = (n \<noteq> 0)"
| "truthy (JStr s) = (s \<noteq> [])"
| "truthy (JArr xs) = True"
| "truthy (JObj kvs) = True"

fun is_string :: "jsval \<Rightarrow> bool" where
  "is_string (JStr s) = True"
| "is_string v = False"

datatype WindsurfErrorCode =
  NOT_RUNNING | CSRF_MISSING | API_KEY_MISSING | CONNECTION_FAILED | AUTH_FAILED | STREAM_ERROR

datatype js_error =
    WindsurfError string WindsurfErrorCode
  | TypeError string
  | SyntaxError string

fun error_message :: "js_error \<Rightarrow> string" where
  "error_message (WindsurfError m c) = m"
| "error_message (TypeError m) = m"
| "error_message (SyntaxError m) = m"

text \<open>Reading a property: \<^verbatim>\<open>v.name\<close> throws a TypeError on null and undefined. The
  property names the program reads (action, content, tool_calls, name, arguments, apiKey,
  windsurf, variant, variantID, variantId) are not defined on the prototypes of arrays,
  strings, numbers or booleans, so reading them there gives undefined.\<close>

fun get_prop :: "jsval \<Rightarrow> string \<Rightarrow> js_error + jsval" where
  "get_prop JUndefined k = Inl (TypeError ''Cannot read properties of undefined'')"
| "get_prop JNull k = Inl (TypeError ''Cannot read properties of null'')"
| "get_prop (JObj kvs) k = Inr (case map_of kvs k of None \<Rightarrow> JUndefined | Some v \<Rightarrow> v)"
| "get_prop v k = Inr JUndefined"

definition is_space :: "char \<Rightarrow> bool" where
  "is_space c = (c \<in> set [CHR '' '', CHR 0x09, CHR 0x0A, CHR 0x0B, CHR 0x0C, CHR 0x0D])"

definition is_digit :: "char \<Rightarrow> bool" where
  "is_digit c = (c \<in> set ''0123456789'')"

definition is_word :: "char \<Rightarrow> bool" where
  "is_word c = (c \<in> set ''abcdefghijklmnopqrstuvwxyzABCDEFGHIJKLMNOPQRSTUVWXYZ0123456789_'')"

definition trim :: "string \<Rightarrow> string" where
  "trim s = rev (dropWhile is_space (rev (dropWhile is_space s)))"

text \<open>\<^verbatim>\<open>s.includes(sub)\<close>\<close>

fun str_includes :: "string \<Rightarrow> string \<Rightarrow> bool" where
  "str_includes [] sub = (sub = [])"
| "str_includes (c # cs) sub = (prefix sub (c # cs) \<or> str_includes cs sub)"

text \<open>\<^verbatim>\<open>s.split(d)\<close> for a one-character separator.\<close>

fun split_on :: "char \<Rightarrow> string \<Rightarrow> string list" where
  "split_on d [] = [[]]"
| "split_on d (c # cs) =
     (if c = d then [] # split_on d cs
      else (case split_on d cs of l # ls \<Rightarrow> (c # l) # ls | [] \<Rightarrow> [[c]]))"

text \<open>\<^verbatim>\<open>parts.join(sep)\<close>\<close>

fun join :: "string \<Rightarrow> string list \<Rightarrow> string" where
  "join sep [] = []"
| "join sep [x] = x"
| "join sep (x # y # ys) = x @ sep @ join sep (y # ys)"

definition digit_val :: "char \<Rightarrow> nat" where
  "digit_val c = (case map_of (zip ''0123456789'' [0, 1, 2, 3, 4, 5, 6, 7, 8, 9]) c of
                    Some d \<Rightarrow> d | None \<Rightarrow> 0)"

text \<open>\<^verbatim>\<open>parseInt(ds, 10)\<close> on a non-empty run of decimal digits.\<close>

definition parseInt10 :: "string \<Rightarrow> nat" where
  "parseInt10 ds = foldl (\<lambda>acc c. acc * 10 + digit_val c) 0 ds"

subsection \<open>JSON.parse\<close>

text \<open>
  \<^verbatim>\<open>JSON.parse\<close> belongs to the language runtime, not to the program, so it is a
  parameter of the model. The only fact about it that the program's recursion relies on
  is that a parsed value is smaller than its text: every string inside the value was
  written between quotes in the text. The type of parsers carries this fact.
\<close>

fun weight :: "jsval \<Rightarrow> nat" where
  "weight (JStr s) = Suc (length s)"
| "weight (JArr xs) = Suc (sum_list (map weight xs))"
| "weight (JObj kvs) = Suc (sum_list (map (\<lambda>kv. weight (snd kv)) kvs))"
| "weight v = 1"

typedef json_parser = "{p :: string \<Rightarrow> jsval option. \<forall>s v. p s = Some v \<longrightarrow> weight v \<le> length s}"
  morphisms JSON_parse Abs_json_parser
  by (rule exI [of _ "\<lambda>s. None"]) simp

setup_lifting type_definition_json_parser


section \<open>Credential discovery (plugin/auth)\<close>

text \<open>\<^verbatim>\<open>process.platform\<close>; \<open>OtherPlatform\<close> carries the name of any other system.\<close>

datatype platform = Darwin | Linux | Win32 | OtherPlatform string

text \<open>
  What the program observes of the operating system. Each field is the outcome of one
  external command or file access of the source; \<open>None\<close> stands for
  \<^verbatim>\<open>execSync\<close> or \<^verbatim>\<open>readFileSync\<close> throwing. The port lists are the numbers the source
  has collected from the command output, in the order of the output.
\<close>

record os_state =
  platform :: platform
  ps_output :: "string option"
  proc_ports :: "string \<Rightarrow> nat list"
  ss_ports :: "string \<Rightarrow> nat list option"
  lsof_ports :: "string \<Rightarrow> nat list option"
  state_db :: "string option option"
  legacy_config :: "string option option"

text \<open>
  \<open>ps_output\<close>: output of \<^verbatim>\<open>ps aux | grep pattern\<close> (or of \<^verbatim>\<open>wmic\<close>);
  \<open>proc_ports pid\<close>: \<^verbatim>\<open>listeningPorts\<close> gathered from \<^verbatim>\<open>/proc\<close>, empty when no
  socket inode or no listening row was found;
  \<open>ss_ports pid\<close>, \<open>lsof_ports pid\<close>: \<^verbatim>\<open>ports\<close> parsed from \<^verbatim>\<open>ss\<close> and \<^verbatim>\<open>lsof\<close>;
  \<open>state_db\<close>: \<open>None\<close> when the state database file does not exist, else the outcome
  of the \<^verbatim>\<open>sqlite3\<close> query; \<open>legacy_config\<close>: \<open>None\<close> when the legacy file does not
  exist, else the outcome of reading it.
\<close>

fun getLanguageServerPattern :: "platform \<Rightarrow> string" where
  "getLanguageServerPattern Darwin = ''language_server_macos''"
| "getLanguageServerPattern Linux = ''language_server_linux_x64''"
| "getLanguageServerPattern Win32 = ''language_server_windows''"
| "getLanguageServerPattern (OtherPlatform n) = ''language_server''"

record LanguageServerProcess =
  pid :: string
  csrfToken :: string
  extensionServerPort :: "nat option"
  line :: string

text \<open>\<^verbatim>\<open>/^\s*\S+\s+(\d+)/\<close>: the classes \<^verbatim>\<open>\s\<close> and \<^verbatim>\<open>\S\<close> are complementary and a
  digit is not a space, so every run is maximal and the match is unique.\<close>

definition pidMatch :: "string \<Rightarrow> string option" where
  "pidMatch l =
     (let r1 = dropWhile is_space l;
          tok = takeWhile (\<lambda>c. \<not> is_space c) r1;
          r2 = dropWhile (\<lambda>c. \<not> is_space c) r1;
          gap = takeWhile is_space r2;
          ds = takeWhile is_digit (dropWhile is_space r2)
      in if tok \<noteq> [] \<and> gap \<noteq> [] \<and> ds \<noteq> [] then Some ds else None)"

text \<open>\<^verbatim>\<open>/flag\s+(cls+)/\<close> tried at the start of \<open>s\<close>, then (\<open>flagMatch\<close>) at the
  leftmost position where it succeeds, as an unanchored regular expression does.\<close>

definition flagAt :: "string \<Rightarrow> (char \<Rightarrow> bool) \<Rightarrow> string \<Rightarrow> string option" where
  "flagAt flag cls s =
     (if prefix flag s then
        (let r = drop (length flag) s;
             v = takeWhile cls (dropWhile is_space r)
         in if takeWhile is_space r \<noteq> [] \<and> v \<noteq> [] then Some v else None)
      else None)"

fun flagMatch :: "string \<Rightarrow> (char \<Rightarrow> bool) \<Rightarrow> string \<Rightarrow> string option" where
  "flagMatch flag cls [] = flagAt flag cls []"
| "flagMatch flag cls (c # cs) =
     (case flagAt flag cls (c # cs) of Some v \<Rightarrow> Some v | None \<Rightarrow> flagMatch flag cls cs)"

definition is_csrf_char :: "char \<Rightarrow> bool" where
  "is_csrf_char c = (c \<in> set ''abcdef0123456789-'')"

definition csrfMatch :: "string \<Rightarrow> string option" where
  "csrfMatch l = flagMatch ''--csrf_token'' is_csrf_char l"

definition portMatch :: "string \<Rightarrow> string option" where
  "portMatch l = flagMatch ''--extension_server_port'' is_digit l"

text \<open>The body of the loop over the lines of the process listing.\<close>

definition parseProcessLine :: "string \<Rightarrow> string \<Rightarrow> LanguageServerProcess option" where
  "parseProcessLine pattern l =
     (if \<not> str_includes l pattern \<or> str_includes l ''grep'' then None
      else (case (pidMatch l, csrfMatch l) of
              (Some p, Some t) \<Rightarrow>
                Some \<lparr> pid = p, csrfToken = t,
                       extensionServerPort = map_option parseInt10 (portMatch l),
                       line = l \<rparr>
            | _ \<Rightarrow> None))"

definition getLanguageServerProcesses :: "os_state \<Rightarrow> LanguageServerProcess list" where
  "getLanguageServerProcesses st =
     (let pattern = getLanguageServerPattern (platform st)
      in case ps_output st of
           None \<Rightarrow> []
         | Some output \<Rightarrow> List.map_filter (parseProcessLine pattern) (split_on (CHR 0x0A) output))"

text \<open>\<^verbatim>\<open>extPort ? ports.filter(p => p > extPort).sort((a, b) => a - b) : []\<close>; a null and
  a zero \<^verbatim>\<open>extPort\<close> are both falsy.\<close>

definition portsAfter :: "nat option \<Rightarrow> nat list \<Rightarrow> nat list" where
  "portsAfter extPort ports =
     (case extPort of
        None \<Rightarrow> []
      | Some e \<Rightarrow> if e = 0 then [] else sort (filter (\<lambda>p. p > e) ports))"

definition lastResort :: "nat option \<Rightarrow> nat option" where
  "lastResort extPort =
     (case extPort of None \<Rightarrow> None | Some e \<Rightarrow> if e = 0 then None else Some (e + 3))"

definition getPortForPid :: "os_state \<Rightarrow> string \<Rightarrow> nat option \<Rightarrow> nat option" where
  "getPortForPid st p extPort =
     (case platform st of
        Linux \<Rightarrow>
          (let listeningPorts = proc_ports st p
           in if listeningPorts \<noteq> [] then
                (case portsAfter extPort listeningPorts of
                   a # as \<Rightarrow> Some a
                 | [] \<Rightarrow> Some (hd (sort listeningPorts)))
              else
                (case ss_ports st p of
                   None \<Rightarrow> lastResort extPort
                 | Some ports \<Rightarrow>
                     if ports \<noteq> [] then
                       (case portsAfter extPort ports of
                          a # as \<Rightarrow> Some a
                        | [] \<Rightarrow> Some (hd (sort ports)))
                     else lastResort extPort))
      | Darwin \<Rightarrow>
          (case lsof_ports st p of
             None \<Rightarrow> lastResort extPort
           | Some ports \<Rightarrow>
               if ports \<noteq> [] then
                 (case portsAfter extPort ports of
                    a # as \<Rightarrow> Some a
                  | [] \<Rightarrow> Some (hd ports))
               else lastResort extPort)
      | Win32 \<Rightarrow> lastResort extPort
      | OtherPlatform n \<Rightarrow> lastResort extPort)"

definition not_found :: js_error where
  "not_found = WindsurfError ''Windsurf language server not found. Is Windsurf running?'' NOT_RUNNING"

definition getCSRFToken :: "os_state \<Rightarrow> js_error + string" where
  "getCSRFToken st =
     (case getLanguageServerProcesses st of
        [] \<Rightarrow> Inl not_found
      | proc # rest \<Rightarrow> Inr (csrfToken proc))"

definition getPort :: "os_state \<Rightarrow> js_error + nat" where
  "getPort st =
     (case getLanguageServerProcesses st of
        [] \<Rightarrow> Inl not_found
      | proc # rest \<Rightarrow>
          (case getPortForPid st (pid proc) (extensionServerPort proc) of
             Some port \<Rightarrow> Inr port
           | None \<Rightarrow>
               Inl (WindsurfError ''Windsurf language server port not found. Is Windsurf running?''
                      NOT_RUNNING)))"

text \<open>\<^verbatim>\<open>VSCODE_STATE_PATHS[platform]\<close>, relative to the home directory.\<close>

fun VSCODE_STATE_PATHS :: "platform \<Rightarrow> string option" where
  "VSCODE_STATE_PATHS Darwin =
     Some ''Library/Application Support/Windsurf/User/globalStorage/state.vscdb''"
| "VSCODE_STATE_PATHS Linux = Some ''.config/Windsurf/User/globalStorage/state.vscdb''"
| "VSCODE_STATE_PATHS Win32 = Some ''AppData/Roaming/Windsurf/User/globalStorage/state.vscdb''"
| "VSCODE_STATE_PATHS (OtherPlatform n) = None"

text \<open>\<^verbatim>\<open>const parsed = JSON.parse(text); if (parsed.apiKey) return parsed.apiKey;\<close>
  The result is \<open>Inl\<close> when the block throws, \<open>Inr (Some k)\<close> when it returns \<open>k\<close>,
  \<open>Inr None\<close> when it falls through.\<close>

definition readApiKey :: "json_parser \<Rightarrow> string \<Rightarrow> js_error + jsval option" where
  "readApiKey P text =
     (case JSON_parse P text of
        None \<Rightarrow> Inl (SyntaxError ''Unexpected token'')
      | Some parsed \<Rightarrow>
          (case get_prop parsed ''apiKey'' of
             Inl e \<Rightarrow> Inl e
           | Inr k \<Rightarrow> Inr (if truthy k then Some k else None)))"

definition key_missing :: js_error where
  "key_missing = WindsurfError ''API key not found. Please login to Windsurf first.'' API_KEY_MISSING"

fun platform_name :: "platform \<Rightarrow> string" where
  "platform_name Darwin = ''darwin''"
| "platform_name Linux = ''linux''"
| "platform_name Win32 = ''win32''"
| "platform_name (OtherPlatform n) = n"

definition getApiKey :: "json_parser \<Rightarrow> os_state \<Rightarrow> js_error + jsval" where
  "getApiKey P st =
     (case VSCODE_STATE_PATHS (platform st) of
        None \<Rightarrow>
          Inl (WindsurfError (''Unsupported platform: '' @ platform_name (platform st)) API_KEY_MISSING)
      | Some statePath \<Rightarrow>
          (let fromState =
                 (case state_db st of
                    None \<Rightarrow> None
                  | Some None \<Rightarrow> None
                  | Some (Some out) \<Rightarrow>
                      (let result = trim out
                       in if result \<noteq> [] then
                            (case readApiKey P result of Inl e \<Rightarrow> None | Inr r \<Rightarrow> r)
                          else None))
           in case fromState of
                Some k \<Rightarrow> Inr k
              | None \<Rightarrow>
                  (let fromLegacy =
                         (case legacy_config st of
                            None \<Rightarrow> None
                          | Some None \<Rightarrow> None
                          | Some (Some config) \<Rightarrow>
                              (case readApiKey P config of Inl e \<Rightarrow> None | Inr r \<Rightarrow> r))
                   in case fromLegacy of
                        Some k \<Rightarrow> Inr k
                      | None \<Rightarrow> Inl key_missing)))"

definition getWindsurfVersion :: "os_state \<Rightarrow> string" where
  "getWindsurfVersion st =
     (case getLanguageServerProcesses st of
        [] \<Rightarrow> ''1.13.104''
      | proc # rest \<Rightarrow>
          (case flagMatch ''--windsurf_version'' (\<lambda>c. \<not> is_space c) (line proc) of
             Some m \<Rightarrow> hd (split_on (CHR ''+'') m)
           | None \<Rightarrow> ''1.13.104''))"

record WindsurfCredentials =
  cred_csrfToken :: string
  cred_port :: nat
  cred_apiKey :: jsval
  cred_version :: string

definition getCredentials :: "json_parser \<Rightarrow> os_state \<Rightarrow> js_error + WindsurfCredentials" where
  "getCredentials P st =
     (case getCSRFToken st of
        Inl e \<Rightarrow> Inl e
      | Inr t \<Rightarrow>
          (case getPort st of
             Inl e \<Rightarrow> Inl e
           | Inr p \<Rightarrow>
               (case getApiKey P st of
                  Inl e \<Rightarrow> Inl e
                | Inr k \<Rightarrow>
                    Inr \<lparr> cred_csrfToken = t, cred_port = p, cred_apiKey = k,
                          cred_version = getWindsurfVersion st \<rparr>)))"

definition isWindsurfRunning :: "os_state \<Rightarrow> bool" where
  "isWindsurfRunning st =
     (case getCSRFToken st of
        Inl e \<Rightarrow> False
      | Inr t \<Rightarrow> (case getPort st of Inl e \<Rightarrow> False | Inr p \<Rightarrow> True))"


section \<open>Tool-call planning (plugin.ts)\<close>

subsection \<open>normalizeToolArguments\<close>

definition looksJson :: "string \<Rightarrow> bool" where
  "looksJson trimmed =
     ((prefix ''{'' trimmed \<and> suffix ''}'' trimmed) \<or> (prefix ''['' trimmed \<and> suffix '']'' trimmed))"

text \<open>\<^verbatim>\<open>result[key] = value\<close> on an object created by \<^verbatim>\<open>{}\<close>: an existing property
  is overwritten in place, a new one is appended; the key \<^verbatim>\<open>__proto__\<close> reaches the
  prototype setter and creates no own property.\<close>

definition obj_set :: "(string \<times> jsval) list \<Rightarrow> string \<Rightarrow> jsval \<Rightarrow> (string \<times> jsval) list" where
  "obj_set obj k v = (if k = ''__proto__'' then obj else AList.update k v obj)"

definition assign_entries :: "(string \<times> jsval) list \<Rightarrow> (string \<times> jsval) list" where
  "assign_entries kvs = foldl (\<lambda>obj kv. obj_set obj (fst kv) (snd kv)) [] kvs"

function normalizeToolArguments :: "json_parser \<Rightarrow> jsval \<Rightarrow> jsval" where
  "normalizeToolArguments P JUndefined = JObj []"
| "normalizeToolArguments P JNull = JObj []"
| "normalizeToolArguments P (JStr raw) =
     (if looksJson (trim raw) then
        (case JSON_parse P (trim raw) of
           Some parsed \<Rightarrow> normalizeToolArguments P parsed
         | None \<Rightarrow> JStr raw)
      else JStr raw)"
| "normalizeToolArguments P (JArr xs) = JArr (map (normalizeToolArguments P) xs)"
| "normalizeToolArguments P (JObj kvs) =
     JObj (assign_entries (map (\<lambda>kv. (fst kv, normalizeToolArguments P (snd kv))) kvs))"
| "normalizeToolArguments P (JBool b) = JBool b"
| "normalizeToolArguments P (JNum n) = JNum n"
  by pat_completeness auto
termination
proof (relation "measure (\<lambda>(P, v). weight v)")
  show "wf (measure (\<lambda>(P, v). weight v))" by simp
next
  fix P :: json_parser and raw parsed
  assume "JSON_parse P (trim raw) = Some parsed"
  moreover have "\<forall>s v. JSON_parse P s = Some v \<longrightarrow> weight v \<le> length s"
    using JSON_parse [of P] by simp
  ultimately have "weight parsed \<le> length (trim raw)" by blast
  moreover have "length (trim raw) \<le> length raw"
  proof -
    have "length (trim raw) \<le> length (dropWhile is_space raw)"
      unfolding trim_def using length_dropWhile_le [of is_space "rev (dropWhile is_space raw)"]
      by simp
    also have "\<dots> \<le> length raw" by (rule length_dropWhile_le)
    finally show ?thesis .
  qed
  ultimately show "((P, parsed), (P, JStr raw)) \<in> measure (\<lambda>(P, v). weight v)" by simp
next
  fix P :: json_parser and xs :: "jsval list" and x
  assume "x \<in> set xs"
  then have "weight x \<le> sum_list (map weight xs)"
    by (induction xs) auto
  then show "((P, x), (P, JArr xs)) \<in> measure (\<lambda>(P, v). weight v)" by simp
next
  fix P :: json_parser and kvs :: "(string \<times> jsval) list" and kv
  assume "kv \<in> set kvs"
  then have "weight (snd kv) \<le> sum_list (map (\<lambda>kv. weight (snd kv)) kvs)"
    by (induction kvs) auto
  then show "((P, snd kv), (P, JObj kvs)) \<in> measure (\<lambda>(P, v). weight v)" by simp
qed

subsection \<open>parseToolCallPlan\<close>

definition indexOf :: "string \<Rightarrow> char \<Rightarrow> nat option" where
  "indexOf s c = (if c \<in> set s then Some (length (takeWhile (\<lambda>x. x \<noteq> c) s)) else None)"

definition lastIndexOf :: "string \<Rightarrow> char \<Rightarrow> nat option" where
  "lastIndexOf s c =
     (if c \<in> set s then Some (length s - 1 - length (takeWhile (\<lambda>x. x \<noteq> c) (rev s))) else None)"

text \<open>\<^verbatim>\<open>s.slice(a, b)\<close> for \<open>0 \<le> a\<close> and \<open>0 \<le> b\<close>.\<close>

definition slice :: "string \<Rightarrow> nat \<Rightarrow> nat \<Rightarrow> string" where
  "slice s a b = take (b - a) (drop a s)"

record tool_call =
  tc_name :: jsval
  tc_arguments :: jsval

datatype ToolCallPlan = Final jsval | ToolCall "tool_call list"

text \<open>\<^verbatim>\<open>parsed && parsed.action === 'final' && typeof parsed.content === 'string'\<close>: the
  content when the test holds.\<close>

definition final_content :: "jsval \<Rightarrow> js_error + jsval option" where
  "final_content parsed =
     (if truthy parsed then
        (case get_prop parsed ''action'' of
           Inl e \<Rightarrow> Inl e
         | Inr a \<Rightarrow>
             if a = JStr ''final'' then
               (case get_prop parsed ''content'' of
                  Inl e \<Rightarrow> Inl e
                | Inr c \<Rightarrow> Inr (if is_string c then Some c else None))
             else Inr None)
      else Inr None)"

text \<open>\<^verbatim>\<open>parsed && parsed.action === 'tool_call' && Array.isArray(parsed.tool_calls)\<close>: the
  array when the test holds.\<close>

definition tool_call_items :: "jsval \<Rightarrow> js_error + jsval list option" where
  "tool_call_items parsed =
     (if truthy parsed then
        (case get_prop parsed ''action'' of
           Inl e \<Rightarrow> Inl e
         | Inr a \<Rightarrow>
             if a = JStr ''tool_call'' then
               (case get_prop parsed ''tool_calls'' of
                  Inl e \<Rightarrow> Inl e
                | Inr (JArr items) \<Rightarrow> Inr (Some items)
                | Inr v \<Rightarrow> Inr None)
             else Inr None)
      else Inr None)"

text \<open>\<^verbatim>\<open>filter\<close> and \<^verbatim>\<open>map\<close> with a callback that may throw.\<close>

fun filterE :: "('a \<Rightarrow> js_error + bool) \<Rightarrow> 'a list \<Rightarrow> js_error + 'a list" where
  "filterE f [] = Inr []"
| "filterE f (x # xs) =
     (case f x of
        Inl e \<Rightarrow> Inl e
      | Inr b \<Rightarrow>
          (case filterE f xs of
             Inl e \<Rightarrow> Inl e
           | Inr ys \<Rightarrow> Inr (if b then x # ys else ys)))"

fun mapE :: "('a \<Rightarrow> js_error + 'b) \<Rightarrow> 'a list \<Rightarrow> js_error + 'b list" where
  "mapE f [] = Inr []"
| "mapE f (x # xs) =
     (case f x of
        Inl e \<Rightarrow> Inl e
      | Inr y \<Rightarrow> (case mapE f xs of Inl e \<Rightarrow> Inl e | Inr ys \<Rightarrow> Inr (y # ys)))"

text \<open>\<^verbatim>\<open>(t) => t && typeof t.name === 'string'\<close>\<close>

definition has_string_name :: "jsval \<Rightarrow> js_error + bool" where
  "has_string_name t =
     (if truthy t then
        (case get_prop t ''name'' of Inl e \<Rightarrow> Inl e | Inr n \<Rightarrow> Inr (is_string n))
      else Inr False)"

text \<open>\<^verbatim>\<open>(t) => ({ name: t.name, arguments: normalizeToolArguments(t.arguments) })\<close>\<close>

definition to_tool_call :: "json_parser \<Rightarrow> jsval \<Rightarrow> js_error + tool_call" where
  "to_tool_call P t =
     (case get_prop t ''name'' of
        Inl e \<Rightarrow> Inl e
      | Inr n \<Rightarrow>
          (case get_prop t ''arguments'' of
             Inl e \<Rightarrow> Inl e
           | Inr a \<Rightarrow> Inr \<lparr> tc_name = n, tc_arguments = normalizeToolArguments P a \<rparr>))"

text \<open>The body of the \<^verbatim>\<open>try\<close> block.\<close>

definition parsePlanJson :: "json_parser \<Rightarrow> string \<Rightarrow> js_error + ToolCallPlan option" where
  "parsePlanJson P jsonText =
     (case JSON_parse P jsonText of
        None \<Rightarrow> Inl (SyntaxError ''Unexpected token'')
      | Some parsed \<Rightarrow>
          (case final_content parsed of
             Inl e \<Rightarrow> Inl e
           | Inr (Some c) \<Rightarrow> Inr (Some (Final c))
           | Inr None \<Rightarrow>
               (case tool_call_items parsed of
                  Inl e \<Rightarrow> Inl e
                | Inr None \<Rightarrow> Inr None
                | Inr (Some items) \<Rightarrow>
                    (case filterE has_string_name items of
                       Inl e \<Rightarrow> Inl e
                     | Inr named \<Rightarrow>
                         (case mapE (to_tool_call P) named of
                            Inl e \<Rightarrow> Inl e
                          | Inr calls \<Rightarrow> Inr (Some (ToolCall calls)))))))"

text \<open>
  The heuristic of the \<^verbatim>\<open>catch\<close> block:
  \<^verbatim>\<open>/<tool_call>\s*([\w.-]+)\s*(\{[\s\S]*?\})(?=\s*(?:<tool_call>|$))/g\<close>.
  The greedy runs are over disjoint character classes, so each is maximal; the lazy body
  ends at the first closing brace after which only spaces and then either the end of the
  input or the next tag follow.
\<close>

definition tool_call_tag :: string where
  "tool_call_tag = ''<tool_call>''"

definition is_name_char :: "char \<Rightarrow> bool" where
  "is_name_char c = (is_word c \<or> c = CHR ''.'' \<or> c = CHR ''-'')"

definition lookahead :: "string \<Rightarrow> bool" where
  "lookahead s = (let r = dropWhile is_space s in r = [] \<or> prefix tool_call_tag r)"

fun lazyBody :: "string \<Rightarrow> string \<Rightarrow> (string \<times> string) option" where
  "lazyBody acc [] = None"
| "lazyBody acc (c # cs) =
     (if c = CHR ''}'' \<and> lookahead cs then Some (rev (c # acc), cs)
      else lazyBody (c # acc) cs)"

text \<open>One attempt at the start of \<open>s\<close>: the name, the braces group, the length matched.\<close>

definition tagAt :: "string \<Rightarrow> (string \<times> string \<times> nat) option" where
  "tagAt s =
     (if prefix tool_call_tag s then
        (let r1 = dropWhile is_space (drop (length tool_call_tag) s);
             name = takeWhile is_name_char r1;
             r2 = dropWhile is_space (dropWhile is_name_char r1)
         in if name = [] then None
            else (case r2 of
                    [] \<Rightarrow> None
                  | c # r3 \<Rightarrow>
                      if c = CHR ''{'' then
                        (case lazyBody [] r3 of
                           None \<Rightarrow> None
                         | Some (body, rest) \<Rightarrow> Some (name, c # body, length s - length rest))
                      else None))
      else None)"

text \<open>\<^verbatim>\<open>output.matchAll(...)\<close>: the leftmost match from each position, the search resuming
  where the match ended (\<open>skip\<close> counts the characters of the match still to pass).\<close>

fun matchAll :: "nat \<Rightarrow> string \<Rightarrow> (string \<times> string) list" where
  "matchAll skip [] = []"
| "matchAll skip (c # cs) =
     (if skip > 0 then matchAll (skip - 1) cs
      else (case tagAt (c # cs) of
              None \<Rightarrow> matchAll 0 cs
            | Some (name, rawArgs, len) \<Rightarrow> (name, rawArgs) # matchAll (len - 1) cs))"

text \<open>The body of the \<^verbatim>\<open>catch\<close> block.\<close>

definition parsePlanTags :: "json_parser \<Rightarrow> string \<Rightarrow> ToolCallPlan option" where
  "parsePlanTags P output =
     (let matches = matchAll 0 output
      in if matches = [] then None
         else (let tool_calls =
                     List.map_filter
                       (\<lambda>m. case JSON_parse P (snd m) of
                               None \<Rightarrow> None
                             | Some args \<Rightarrow>
                                 Some \<lparr> tc_name = JStr (fst m),
                                        tc_arguments = normalizeToolArguments P args \<rparr>)
                       matches
               in if tool_calls = [] then None else Some (ToolCall tool_calls)))"

definition parseToolCallPlan :: "json_parser \<Rightarrow> string \<Rightarrow> js_error + ToolCallPlan option" where
  "parseToolCallPlan P output =
     (case (indexOf output (CHR ''{''), lastIndexOf output (CHR ''}'')) of
        (Some start, Some end) \<Rightarrow>
          if end \<le> start then Inr None
          else (case parsePlanJson P (slice output start (end + 1)) of
                  Inr r \<Rightarrow> Inr r
                | Inl e \<Rightarrow> Inr (parsePlanTags P output))
      | _ \<Rightarrow> Inr None)"


text \<open>What the result type \<^verbatim>\<open>ToolCallPlan | null\<close> promises: the content of a final plan
  is a string, and so is the name of every tool call.\<close>

fun well_formed_plan :: "ToolCallPlan option \<Rightarrow> bool" where
  "well_formed_plan None = True"
| "well_formed_plan (Some (Final c)) = is_string c"
| "well_formed_plan (Some (ToolCall tcs)) = list_all (\<lambda>tc. is_string (tc_name tc)) tcs"

subsection \<open>Requests\<close>

record text_part =
  part_type :: "string option"
  part_text :: "string option"

datatype msg_content = CString string | CParts "text_part list"

text \<open>A message of the request body. \<open>msg_name\<close>, \<open>tool_call_id\<close> and \<open>tool_calls\<close>
  are the optional properties that the program reads through \<^verbatim>\<open>(message as any)\<close>.\<close>

record message =
  role :: string
  content :: msg_content
  msg_name :: "string option"
  tool_call_id :: "string option"
  tool_calls :: "jsval option"

record tool_function =
  fn_name :: "string option"
  fn_description :: "string option"
  fn_parameters :: "jsval option"

record tool_def =
  tool_type :: "string option"
  tool_function :: "tool_function option"

text \<open>The parsed request body; \<open>stream\<close> is \<^verbatim>\<open>requestBody.stream === true\<close>, an absent
  property is \<open>None\<close> (or \<open>JUndefined\<close> for \<open>providerOptions\<close>).\<close>

record ChatCompletionRequest =
  model :: "string option"
  messages :: "message list option"
  stream :: bool
  tools :: "tool_def list option"
  providerOptions :: jsval

record chat_message =
  cm_role :: string
  cm_content :: string

record gen_result =
  yielded :: "string list"
  thrown :: "js_error option"

record ResolvedModel =
  modelId :: string
  variant :: "string option"
  enumValue :: nat
  modelUid :: "string option"

text \<open>
  What the request handlers take from outside plugin.ts: the clock and the random
  identifier, \<^verbatim>\<open>getDefaultModel\<close> and \<^verbatim>\<open>resolveModel\<close> of plugin/models,
  \<^verbatim>\<open>JSON.stringify\<close> (plain and with indentation 2), and the language server, given
  as the outcome of one Cascade session for a model and an outbound text: the chunks it
  yields and the error it ends with, if any.
\<close>

record env =
  now :: nat
  uuid :: string
  getDefaultModel :: string
  resolveModel :: "string \<Rightarrow> string option \<Rightarrow> ResolvedModel"
  stringify :: "jsval \<Rightarrow> string"
  stringify_pretty :: "jsval \<Rightarrow> string"
  cascade :: "string \<Rightarrow> string \<Rightarrow> gen_result"

definition nl :: string where
  "nl = [CHR 0x0A]"

subsection \<open>The Cascade client (plugin/grpc-client)\<close>

text \<open>The text item that \<^verbatim>\<open>buildSendUserCascadeMessageRequest\<close> encodes.\<close>

definition outboundText :: "chat_message list \<Rightarrow> string" where
  "outboundText msgs =
     (let systemParts = map cm_content (filter (\<lambda>m. cm_role m = ''system'') msgs);
          userParts = map cm_content (filter (\<lambda>m. cm_role m = ''user'') msgs);
          text = join (nl @ nl) (systemParts @ userParts)
      in if text = [] then ''Hello'' else text)"

text \<open>\<^verbatim>\<open>streamChatGenerator\<close> uses the messages only to build that text. Its three
  remote calls (start, send, poll up to 60 times) end in the chunks yielded and, when a
  call fails or no answer arrives, in an error: every run of the generator is one
  outcome of \<open>cascade\<close>.\<close>

definition streamChatGenerator :: "env \<Rightarrow> string \<Rightarrow> chat_message list \<Rightarrow> gen_result" where
  "streamChatGenerator E mdl msgs = cascade E mdl (outboundText msgs)"

subsection \<open>Provider options\<close>

text \<open>\<^verbatim>\<open>v?.k\<close>\<close>

definition opt_prop :: "jsval \<Rightarrow> string \<Rightarrow> jsval" where
  "opt_prop v k = (case get_prop v k of Inl e \<Rightarrow> JUndefined | Inr x \<Rightarrow> x)"

text \<open>\<^verbatim>\<open>a ?? b ?? c\<close>\<close>

fun coalesce :: "jsval list \<Rightarrow> jsval" where
  "coalesce [] = JUndefined"
| "coalesce [v] = v"
| "coalesce (v # w # ws) = (if v = JUndefined \<or> v = JNull then coalesce (w # ws) else v)"

definition extractVariantFromProviderOptions :: "jsval \<Rightarrow> string option" where
  "extractVariantFromProviderOptions po =
     (if \<not> truthy po then None
      else (let windsurf = opt_prop po ''windsurf'';
                candidate = coalesce
                  [opt_prop windsurf ''variant'', opt_prop windsurf ''variantID'',
                   opt_prop windsurf ''variantId'', opt_prop po ''variant'',
                   opt_prop po ''variantID'', opt_prop po ''variantId'']
            in case candidate of
                 JStr c \<Rightarrow> if c \<noteq> [] then Some c else None
               | v \<Rightarrow> None))"

subsection \<open>The planner prompt\<close>

text \<open>\<^verbatim>\<open>a || b\<close> on an optional string.\<close>

definition or_else :: "string option \<Rightarrow> string \<Rightarrow> string" where
  "or_else a b = (case a of None \<Rightarrow> b | Some x \<Rightarrow> if x = [] then b else x)"

definition non_empty :: "string list \<Rightarrow> string list" where
  "non_empty xs = filter (\<lambda>x. x \<noteq> []) xs"

definition toUpperCase :: "string \<Rightarrow> string" where
  "toUpperCase s =
     map (\<lambda>c. case map_of (zip ''abcdefghijklmnopqrstuvwxyz'' ''ABCDEFGHIJKLMNOPQRSTUVWXYZ'') c of
                 Some u \<Rightarrow> u | None \<Rightarrow> c) s"

definition summarizeTool :: "env \<Rightarrow> tool_def \<Rightarrow> string" where
  "summarizeTool E tool =
     (let f = tool_function tool;
          name = or_else (Option.bind f fn_name) ''unknown'';
          description = or_else (Option.bind f fn_description) '''';
          paramsSummary =
            (case Option.bind f fn_parameters of
               Some (JObj kvs) \<Rightarrow> ''schema:'' @ nl @ stringify_pretty E (JObj kvs)
             | Some (JArr xs) \<Rightarrow> ''schema:'' @ nl @ stringify_pretty E (JArr xs)
             | _ \<Rightarrow> '''');
          head = ''- '' @ name @ (if description \<noteq> [] then '': '' @ description else '''')
      in join nl (if paramsSummary \<noteq> [] then [head, paramsSummary] else [head]))"

definition extractTextParts :: "msg_content \<Rightarrow> string" where
  "extractTextParts c =
     (case c of
        CString s \<Rightarrow> s
      | CParts ps \<Rightarrow>
          join nl (non_empty
            (map (\<lambda>p. if part_type p = Some ''text'' then or_else (part_text p) '''' else '''') ps)))"

text \<open>One turn of the loop that fills \<^verbatim>\<open>conversationLines\<close>: the line pushed, if any.\<close>

definition conversationLine :: "env \<Rightarrow> message \<Rightarrow> string option" where
  "conversationLine E m =
     (let r = (if role m = [] then ''user'' else role m)
      in if r = ''system'' then None
         else if r = ''tool'' then
           Some (''TOOL RESULT ('' @ or_else (msg_name m) ''tool''
                 @ (case tool_call_id m of
                      None \<Rightarrow> ''''
                    | Some i \<Rightarrow> if i = [] then '''' else '', id='' @ i)
                 @ ''): '' @ extractTextParts (content m))
         else (case (if r = ''assistant'' then tool_calls m else None) of
                 Some (JArr xs) \<Rightarrow> Some (''ASSISTANT TOOL_CALLS: '' @ stringify E (JArr xs))
               | other \<Rightarrow>
                   (let c = extractTextParts (content m)
                    in if c \<noteq> [] then Some (toUpperCase r @ '': '' @ c) else None)))"

definition buildToolPrompt :: "env \<Rightarrow> ChatCompletionRequest \<Rightarrow> js_error + string" where
  \<open>buildToolPrompt E request =
     (let tls = (case tools request of None \<Rightarrow> [] | Some ts \<Rightarrow> ts);
          toolList = (if tls \<noteq> [] then join nl (map (summarizeTool E) tls) else ''(none)'')
      in case messages request of
           None \<Rightarrow> Inl (TypeError ''undefined is not an object (evaluating request.messages.filter)'')
         | Some ms \<Rightarrow>
             (let systemMessages = filter (\<lambda>m. role m = ''system'') ms;
                  systemText =
                    join (nl @ nl) (non_empty (map (\<lambda>m. extractTextParts (content m)) systemMessages));
                  conversationLines = List.map_filter (conversationLine E) ms
              in Inr (join nl (non_empty
                   [''You are a tool-calling assistant running inside OpenCode.'',
                    (if systemText \<noteq> [] then ''System: '' @ systemText else ''''),
                    '''',
                    ''Available tools:'',
                    toolList,
                    '''',
                    ''STRICT OUTPUT:'',
                    ''- Output MUST be exactly one JSON object and nothing else.'',
                    ''- If you output anything outside JSON, your answer is discarded.'',
                    ''- DO NOT emit <tool_call> tags or prose. Only JSON.'',
                    ''- Arguments MUST follow each tool's JSON schema exactly (types, nesting, required fields).'',
                    '''',
                    ''RESPONSE FORMAT:'',
                    ''- Call tool(s):'',
                    ''{"action":"tool_call","tool_calls":[{"name":"tool_name","arguments":{"arg":"value"}}]}'',
                    ''- Final answer:'',
                    ''{"action":"final","content":"..."}'',
                    '''',
                    ''Conversation:'',
                    join (nl @ nl) conversationLines]))))\<close>

subsection \<open>Responses\<close>

text \<open>The identifiers that the program builds by string interpolation:
  \<^verbatim>\<open>chatcmpl-<uuid>\<close>, \<^verbatim>\<open>windsurf-tools-<now>\<close> and \<^verbatim>\<open>call_<now>_<i>\<close>.\<close>

datatype ident = ChatCmpl string | WindsurfTools nat | CallId nat nat

record mapped_call =
  mc_index :: "nat option"
  mc_id :: ident
  mc_type :: string
  mc_name :: jsval
  mc_arguments :: string

text \<open>The \<^verbatim>\<open>delta\<close> of a chunk: \<^verbatim>\<open>{ content }\<close> or
  \<^verbatim>\<open>{ role: 'assistant', tool_calls }\<close>.\<close>

datatype delta = ContentDelta jsval | ToolCallsDelta "mapped_call list"

record chunk =
  chunk_id :: ident
  chunk_object :: string
  chunk_created :: nat
  chunk_model :: string
  chunk_delta :: delta
  finish_reason :: "string option"

record completion =
  comp_id :: ident
  comp_object :: string
  comp_created :: nat
  comp_model :: string
  comp_content :: jsval
  comp_tool_calls :: "mapped_call list option"
  comp_finish_reason :: string

text \<open>What is enqueued on the stream: \<^verbatim>\<open>data: <chunk>\<close>, \<^verbatim>\<open>data: {"error": ...}\<close>
  and \<^verbatim>\<open>data: [DONE]\<close>.\<close>

datatype sse_event = Data chunk | ErrorData string | Done

datatype payload = Chunk chunk | Completion completion

definition createOpenAICompatibleResponse ::
  "env \<Rightarrow> ident \<Rightarrow> string \<Rightarrow> string \<Rightarrow> bool \<Rightarrow> string option \<Rightarrow> payload" where
  "createOpenAICompatibleResponse E i mdl c isStreaming finishReason =
     (let timestamp = now E div 1000
      in if isStreaming then
           Chunk \<lparr> chunk_id = i, chunk_object = ''chat.completion.chunk'',
                   chunk_created = timestamp, chunk_model = mdl,
                   chunk_delta = ContentDelta (JStr c), finish_reason = finishReason \<rparr>
         else
           Completion \<lparr> comp_id = i, comp_object = ''chat.completion'',
                        comp_created = timestamp, comp_model = mdl,
                        comp_content = JStr c, comp_tool_calls = None,
                        comp_finish_reason = or_else finishReason ''stop'' \<rparr>)"

definition as_chunk :: "payload \<Rightarrow> sse_event list" where
  "as_chunk p = (case p of Chunk c \<Rightarrow> [Data c] | Completion c \<Rightarrow> [])"

text \<open>\<^verbatim>\<open>request.model || getDefaultModel()\<close>\<close>

definition requested_model :: "env \<Rightarrow> ChatCompletionRequest \<Rightarrow> string" where
  "requested_model E request = or_else (model request) (getDefaultModel E)"

definition effective_model :: "env \<Rightarrow> ChatCompletionRequest \<Rightarrow> string" where
  "effective_model E request =
     (let resolved = resolveModel E (requested_model E request)
                       (extractVariantFromProviderOptions (providerOptions request))
      in case variant resolved of
           None \<Rightarrow> modelId resolved
         | Some v \<Rightarrow> if v = [] then modelId resolved else modelId resolved @ '':'' @ v)"

text \<open>The conversion of the request messages for the Cascade client, in
  \<^verbatim>\<open>createStreamingResponse\<close> and \<^verbatim>\<open>createNonStreamingResponse\<close>.\<close>

definition flatten_content :: "msg_content \<Rightarrow> string" where
  "flatten_content c =
     (case c of
        CString s \<Rightarrow> s
      | CParts ps \<Rightarrow> concat (map (\<lambda>p. or_else (part_text p) '''') ps))"

definition convert_messages :: "message list \<Rightarrow> chat_message list" where
  "convert_messages ms =
     map (\<lambda>m. \<lparr> cm_role = role m, cm_content = flatten_content (content m) \<rparr>)
       (filter (\<lambda>m. role m \<noteq> ''assistant'' \<and> role m \<noteq> ''tool'') ms)"

definition createStreamingResponse :: "env \<Rightarrow> ChatCompletionRequest \<Rightarrow> sse_event list" where
  "createStreamingResponse E request =
     (let responseId = ChatCmpl (uuid E);
          requestedModel = requested_model E request;
          effectiveModel = effective_model E request
      in case messages request of
           None \<Rightarrow> [ErrorData ''undefined is not an object (evaluating request.messages.filter)'']
         | Some ms \<Rightarrow>
             (let g = streamChatGenerator E effectiveModel (convert_messages ms);
                  sent = concat (map (\<lambda>c. as_chunk
                           (createOpenAICompatibleResponse E responseId requestedModel c True None))
                           (yielded g))
              in case thrown g of
                   Some err \<Rightarrow> sent @ [ErrorData (error_message err)]
                 | None \<Rightarrow>
                     sent
                     @ as_chunk (createOpenAICompatibleResponse E responseId requestedModel
                                   '''' True (Some ''stop''))
                     @ [Done]))"

definition createNonStreamingResponse :: "env \<Rightarrow> ChatCompletionRequest \<Rightarrow> js_error + payload" where
  "createNonStreamingResponse E request =
     (let responseId = ChatCmpl (uuid E);
          requestedModel = requested_model E request;
          effectiveModel = effective_model E request
      in case messages request of
           None \<Rightarrow> Inl (TypeError ''undefined is not an object (evaluating request.messages.filter)'')
         | Some ms \<Rightarrow>
             (let g = streamChatGenerator E effectiveModel (convert_messages ms)
              in case thrown g of
                   Some err \<Rightarrow> Inl err
                 | None \<Rightarrow>
                     Inr (createOpenAICompatibleResponse E responseId requestedModel
                            (concat (yielded g)) False (Some ''stop''))))"

subsection \<open>Tool planning\<close>

definition runWindsurfOnce :: "env \<Rightarrow> string \<Rightarrow> string \<Rightarrow> js_error + string" where
  "runWindsurfOnce E mdl prompt =
     (let g = streamChatGenerator E mdl [\<lparr> cm_role = ''user'', cm_content = prompt \<rparr>]
      in case thrown g of Some err \<Rightarrow> Inl err | None \<Rightarrow> Inr (concat (yielded g)))"

record planned =
  plan :: "ToolCallPlan option"
  plan_content :: string
  plan_model :: string

definition planToolCall :: "json_parser \<Rightarrow> env \<Rightarrow> ChatCompletionRequest \<Rightarrow> js_error + planned" where
  "planToolCall P E request =
     (let mdl = requested_model E request
      in case buildToolPrompt E request of
           Inl e \<Rightarrow> Inl e
         | Inr prompt \<Rightarrow>
             (case runWindsurfOnce E mdl prompt of
                Inl e \<Rightarrow> Inl e
              | Inr c \<Rightarrow>
                  (case parseToolCallPlan P c of
                     Inl e \<Rightarrow> Inl e
                   | Inr pl \<Rightarrow> Inr \<lparr> plan = pl, plan_content = c, plan_model = mdl \<rparr>)))"

text \<open>\<^verbatim>\<open>JSON.stringify(tc.arguments ?? {})\<close>\<close>

definition stringify_arguments :: "env \<Rightarrow> jsval \<Rightarrow> string" where
  "stringify_arguments E a = stringify E (coalesce [a, JObj []])"

text \<open>\<^verbatim>\<open>toolCalls.map((tc, i) => ...)\<close>; the streaming variant adds \<^verbatim>\<open>index: i\<close>.\<close>

definition map_tool_calls :: "env \<Rightarrow> bool \<Rightarrow> tool_call list \<Rightarrow> mapped_call list" where
  "map_tool_calls E with_index tcs =
     map (\<lambda>(i, tc). \<lparr> mc_index = (if with_index then Some i else None),
                       mc_id = CallId (now E) i, mc_type = ''function'',
                       mc_name = tc_name tc,
                       mc_arguments = stringify_arguments E (tc_arguments tc) \<rparr>)
       (enumerate 0 tcs)"

text \<open>\<^verbatim>\<open>plan?.action === 'final' ? plan.content : content\<close>\<close>

definition final_text :: "planned \<Rightarrow> jsval" where
  "final_text r = (case plan r of Some (Final c) \<Rightarrow> c | other \<Rightarrow> JStr (plan_content r))"

definition handleToolPlanning :: "json_parser \<Rightarrow> env \<Rightarrow> ChatCompletionRequest \<Rightarrow> js_error + payload" where
  "handleToolPlanning P E request =
     (case planToolCall P E request of
        Inl e \<Rightarrow> Inl e
      | Inr r \<Rightarrow>
          (case plan r of
             Some (ToolCall tcs) \<Rightarrow>
               Inr (Completion
                 \<lparr> comp_id = WindsurfTools (now E), comp_object = ''chat.completion'',
                   comp_created = now E div 1000, comp_model = plan_model r,
                   comp_content = JStr '''', comp_tool_calls = Some (map_tool_calls E False tcs),
                   comp_finish_reason = ''tool_calls'' \<rparr>)
           | other \<Rightarrow>
               Inr (Completion
                 \<lparr> comp_id = WindsurfTools (now E), comp_object = ''chat.completion'',
                   comp_created = now E div 1000, comp_model = plan_model r,
                   comp_content = final_text r, comp_tool_calls = None,
                   comp_finish_reason = ''stop'' \<rparr>)))"

definition handleToolPlanningStream :: "json_parser \<Rightarrow> env \<Rightarrow> ChatCompletionRequest \<Rightarrow> sse_event list" where
  "handleToolPlanningStream P E request =
     (case planToolCall P E request of
        Inl err \<Rightarrow> [ErrorData (error_message err), Done]
      | Inr r \<Rightarrow>
          (case plan r of
             Some (ToolCall tcs) \<Rightarrow>
               [Data \<lparr> chunk_id = WindsurfTools (now E), chunk_object = ''chat.completion.chunk'',
                        chunk_created = now E div 1000, chunk_model = plan_model r,
                        chunk_delta = ToolCallsDelta (map_tool_calls E True tcs),
                        finish_reason = Some ''tool_calls'' \<rparr>,
                Done]
           | other \<Rightarrow>
               [Data \<lparr> chunk_id = WindsurfTools (now E), chunk_object = ''chat.completion.chunk'',
                        chunk_created = now E div 1000, chunk_model = plan_model r,
                        chunk_delta = ContentDelta (final_text r),
                        finish_reason = Some ''stop'' \<rparr>,
                Done]))"

section \<open>The HTTP surface (server.ts)\<close>

datatype response_body =
    ErrorBody string string
  | HealthBody bool
  | ModelsBody
  | EventStream "sse_event list"
  | JsonBody payload

record http_response =
  status :: nat
  content_type :: string
  body :: response_body

text \<open>\<^verbatim>\<open>openAIError(status, message, details)\<close>: the error object has the message, the
  type \<^verbatim>\<open>windsurf_error\<close>, and null \<^verbatim>\<open>param\<close> and \<^verbatim>\<open>code\<close>.\<close>

definition openAIError :: "nat \<Rightarrow> string \<Rightarrow> string option \<Rightarrow> http_response" where
  "openAIError st msg details =
     \<lparr> status = st, content_type = ''application/json'',
       body = ErrorBody
                (case details of
                   None \<Rightarrow> msg
                 | Some d \<Rightarrow> if d = [] then msg else msg @ nl @ d)
                ''windsurf_error'' \<rparr>"

definition hasToolMessages :: "ChatCompletionRequest \<Rightarrow> bool" where
  "hasToolMessages request =
     (case messages request of
        None \<Rightarrow> False
      | Some ms \<Rightarrow>
          list_ex (\<lambda>m. role m = ''tool'' \<or>
                       (role m = ''assistant'' \<and>
                        (case tool_calls m of Some (JArr xs) \<Rightarrow> xs \<noteq> [] | other \<Rightarrow> False))) ms)"

definition hasToolsField :: "ChatCompletionRequest \<Rightarrow> bool" where
  "hasToolsField request = (case tools request of None \<Rightarrow> False | Some ts \<Rightarrow> ts \<noteq> [])"

definition event_stream :: "sse_event list \<Rightarrow> http_response" where
  "event_stream evs = \<lparr> status = 200, content_type = ''text/event-stream'', body = EventStream evs \<rparr>"

definition json_ok :: "payload \<Rightarrow> http_response" where
  "json_ok p = \<lparr> status = 200, content_type = ''application/json'', body = JsonBody p \<rparr>"

text \<open>The body of the \<^verbatim>\<open>try\<close> block of the chat-completions branch: \<open>Inl\<close> is an
  exception that reaches the \<^verbatim>\<open>catch\<close>.\<close>

definition chatCompletion ::
  "json_parser \<Rightarrow> env \<Rightarrow> os_state \<Rightarrow> ChatCompletionRequest \<Rightarrow> js_error + http_response" where
  "chatCompletion P E st requestBody =
     (case getCredentials P st of
        Inl e \<Rightarrow> Inl e
      | Inr credentials \<Rightarrow>
          if hasToolsField requestBody \<or> hasToolMessages requestBody then
            (if stream requestBody then
               Inr (event_stream (handleToolPlanningStream P E requestBody))
             else (case handleToolPlanning P E requestBody of
                     Inl e \<Rightarrow> Inl e
                   | Inr p \<Rightarrow> Inr (json_ok p)))
          else if stream requestBody then
            Inr (event_stream (createStreamingResponse E requestBody))
          else (case createNonStreamingResponse E requestBody of
                  Inl e \<Rightarrow> Inl e
                | Inr p \<Rightarrow> Inr (json_ok p)))"

text \<open>The request handler, on the path of the URL and the parsed body (the empty object
  when the body is not JSON). The readiness probe and the resolver read the operating
  system one after the other: \<open>probe\<close> is the state that the probe sees, \<open>st\<close> the
  state that the resolver sees.\<close>

definition fetch ::
  "json_parser \<Rightarrow> env \<Rightarrow> os_state \<Rightarrow> os_state \<Rightarrow> string \<Rightarrow> ChatCompletionRequest
     \<Rightarrow> http_response" where
  "fetch P E probe st pathname requestBody =
     (if pathname = ''/health'' then
        \<lparr> status = 200, content_type = ''application/json'',
          body = HealthBody (isWindsurfRunning probe) \<rparr>
      else if pathname = ''/v1/models'' \<or> pathname = ''/models'' then
        \<lparr> status = 200, content_type = ''application/json'', body = ModelsBody \<rparr>
      else if pathname = ''/v1/chat/completions'' \<or> pathname = ''/chat/completions'' then
        (if \<not> isWindsurfRunning probe then
           openAIError 503 ''Windsurf is not running. Please launch Windsurf first.'' None
         else (case chatCompletion P E st requestBody of
                 Inr r \<Rightarrow> r
               | Inl err \<Rightarrow> openAIError 500 ''Chat completion failed'' (Some (error_message err))))
      else openAIError 404 (''Unsupported path: '' @ pathname) None)"

section \<open>The model registry (plugin/models)\<close>

text \<open>Modelled from the spec: the VariantSpec and the catalog entry of the data model;
  plugin/models is not among the sources.\<close>

record VariantSpec =
  vs_enum_value :: "nat option"
  vs_model_uid :: "string option"
  vs_description :: string

record catalog_entry =
  default_variant :: "string option"
  variants :: "(string \<times> VariantSpec) list"

text \<open>Modelled from the spec: the tables of plugin/models, which is not among the
  sources. The three maps of the registry and the list of variant names are parameters
  of the resolver.\<close>

record registry =
  ALIAS_TO_CANONICAL :: "(string \<times> string) list"
  VARIANT_CATALOG :: "(string \<times> catalog_entry) list"
  NAME_TO_ENUM :: "(string \<times> nat) list"
  known_variants :: "string list"

text \<open>Modelled from the spec: step 1 of the resolver, the split of the input at its first
  colon.\<close>

definition split_colon :: "string \<Rightarrow> string \<times> string option" where
  "split_colon input =
     (takeWhile (\<lambda>c. c \<noteq> CHR '':'') input,
      Some (drop 1 (dropWhile (\<lambda>c. c \<noteq> CHR '':'') input)))"

text \<open>Modelled from the spec: step 1 of the resolver, suffix detection. The input ends in
  a dash and a known variant, and what precedes the dash is an alias or a canonical
  identifier (a key of one of the three maps).\<close>

definition is_known_id :: "registry \<Rightarrow> string \<Rightarrow> bool" where
  "is_known_id reg x =
     (x \<in> fst ` set (ALIAS_TO_CANONICAL reg) \<or> x \<in> fst ` set (VARIANT_CATALOG reg)
      \<or> x \<in> fst ` set (NAME_TO_ENUM reg))"

text \<open>Modelled from the spec: the first known variant that fits is taken.\<close>

definition strip_variant_suffix :: "registry \<Rightarrow> string \<Rightarrow> string \<times> string option" where
  "strip_variant_suffix reg input =
     (case find (\<lambda>v. suffix (''-'' @ v) input
                     \<and> is_known_id reg (take (length input - length v - 1) input))
             (known_variants reg) of
        Some v \<Rightarrow> (take (length input - length v - 1) input, Some v)
      | None \<Rightarrow> (input, None))"

text \<open>Modelled from the spec: step 1 as a whole; a colon comes before a suffix.\<close>

definition parse_variant :: "registry \<Rightarrow> string \<Rightarrow> string \<times> string option" where
  "parse_variant reg input =
     (if CHR '':'' \<in> set input then split_colon input else strip_variant_suffix reg input)"

text \<open>Modelled from the spec: the resolver algorithm of the model registry, steps 1 to 5.
  The resolved variant is the variant chosen by steps 1 and 2. Where the catalog entry
  has no VariantSpec to look up (no variant is chosen, or the chosen variant is not in
  the entry), the model goes on with step 5.\<close>

definition spec_resolveModel :: "registry \<Rightarrow> string \<Rightarrow> string option \<Rightarrow> ResolvedModel" where
  "spec_resolveModel reg input override_variant =
     (let id_part = fst (parse_variant reg input);
          variant_part = (case override_variant of
                            Some v \<Rightarrow> Some v
                          | None \<Rightarrow> snd (parse_variant reg input));
          canonical = (case map_of (ALIAS_TO_CANONICAL reg) id_part of
                         Some c \<Rightarrow> c
                       | None \<Rightarrow> id_part);
          legacy = (case map_of (NAME_TO_ENUM reg) input of
                      Some e \<Rightarrow> \<lparr> modelId = canonical, variant = variant_part,
                                   enumValue = e, modelUid = None \<rparr>
                    | None \<Rightarrow> \<lparr> modelId = ''claude-3.5-sonnet'', variant = variant_part,
                                 enumValue = 166, modelUid = None \<rparr>)
      in case map_of (VARIANT_CATALOG reg) canonical of
           None \<Rightarrow> legacy
         | Some entry \<Rightarrow>
             (case (case variant_part of Some v \<Rightarrow> Some v | None \<Rightarrow> default_variant entry) of
                None \<Rightarrow> legacy
              | Some v \<Rightarrow>
                  (case map_of (variants entry) v of
                     None \<Rightarrow> legacy
                   | Some vspec \<Rightarrow>
                       (case vs_model_uid vspec of
                          Some uid \<Rightarrow> \<lparr> modelId = canonical, variant = variant_part,
                                         enumValue = 0, modelUid = Some uid \<rparr>
                        | None \<Rightarrow> \<lparr> modelId = canonical, variant = variant_part,
                                     enumValue = (case vs_enum_value vspec of
                                                    Some e \<Rightarrow> e
                                                  | None \<Rightarrow> 0),
                                     modelUid = None \<rparr>))))"

section \<open>Concrete inputs\<close>

text \<open>A parser that knows four JSON texts and rejects every other text; it stands for
  \<^verbatim>\<open>JSON.parse\<close> where a property is evaluated on these texts.\<close>

definition sample_texts :: "(string \<times> jsval) list" where
  \<open>sample_texts =
     [(''{"apiKey":"sk-test"}'', JObj [(''apiKey'', JStr ''sk-test'')]),
      (''{"a":null}'', JObj [(''a'', JNull)]),
      (''{"path":"a.txt"}'', JObj [(''path'', JStr ''a.txt'')]),
      (''{"action":"tool_call","tool_calls":[{"name":"read_file","arguments":{"path":"a.txt"}}]}'',
       JObj [(''action'', JStr ''tool_call''),
             (''tool_calls'',
              JArr [JObj [(''name'', JStr ''read_file''),
                          (''arguments'', JObj [(''path'', JStr ''a.txt'')])]])])]\<close>

lift_definition sample_parser :: json_parser is "map_of sample_texts"
  by (auto simp: sample_texts_def split: if_splits)

definition sample_env :: env where
  "sample_env =
     \<lparr> now = 1700000000000, uuid = ''0000'', getDefaultModel = ''claude-3.5-sonnet'',
       resolveModel = (\<lambda>m v. \<lparr> modelId = m, variant = v, enumValue = 166, modelUid = None \<rparr>),
       stringify = (\<lambda>v. ''{}''), stringify_pretty = (\<lambda>v. ''{}''),
       cascade = (\<lambda>m t. \<lparr> yielded = [''hello''], thrown = None \<rparr>) \<rparr>"

text \<open>The tool-plan reply of the spec's scenario 6, with the arguments given as an object.\<close>

definition scenario6 :: string where
  \<open>scenario6 = ''text before {"action":"tool_call","tool_calls":[{"name":"read_file","arguments":{"path":"a.txt"}}]} text after''\<close>

text \<open>The sources of claim C5: a source yields an API key when its text parses as JSON
  to an object that contains a truthy \<^verbatim>\<open>apiKey\<close>.\<close>

definition json_api_key :: "json_parser \<Rightarrow> string \<Rightarrow> jsval option" where
  "json_api_key P text =
     (case JSON_parse P text of
        Some (JObj kvs) \<Rightarrow>
          (case map_of kvs ''apiKey'' of
             Some k \<Rightarrow> if truthy k then Some k else None
           | None \<Rightarrow> None)
      | other \<Rightarrow> None)"

definition state_key :: "json_parser \<Rightarrow> os_state \<Rightarrow> jsval option" where
  "state_key P st =
     (case state_db st of Some (Some out) \<Rightarrow> json_api_key P (trim out) | other \<Rightarrow> None)"

definition legacy_key :: "json_parser \<Rightarrow> os_state \<Rightarrow> jsval option" where
  "legacy_key P st =
     (case legacy_config st of Some (Some config) \<Rightarrow> json_api_key P config | other \<Rightarrow> None)"

text \<open>Operating-system states: a language server whose command line has
  no CSRF token; a language server that is ready while no API key is stored; a macOS
  process whose listening ports are listed in descending order, and the same listing on
  Linux; an unsupported platform with a legacy configuration file; a Linux machine with
  an API key in the state database.\<close>

definition ps_line_no_csrf :: string where
  "ps_line_no_csrf =
     ''user  4242  0.0  0.1 /opt/windsurf/language_server_linux_x64 --extension_server_port 42000''"

definition ps_line_ready :: string where
  "ps_line_ready =
     ''user  4242  0.0  0.1 /opt/windsurf/language_server_linux_x64 --csrf_token 0a1b-2c3d --extension_server_port 42000 --windsurf_version 1.13.104+next''"

definition no_csrf_state :: os_state where
  "no_csrf_state =
     \<lparr> platform = Linux, ps_output = Some ps_line_no_csrf, proc_ports = (\<lambda>p. []),
       ss_ports = (\<lambda>p. None), lsof_ports = (\<lambda>p. None), state_db = None,
       legacy_config = None \<rparr>"

definition ready_no_key_state :: os_state where
  "ready_no_key_state =
     \<lparr> platform = Linux, ps_output = Some ps_line_ready, proc_ports = (\<lambda>p. [42001]),
       ss_ports = (\<lambda>p. None), lsof_ports = (\<lambda>p. None), state_db = None,
       legacy_config = None \<rparr>"

definition mac_state :: os_state where
  "mac_state =
     \<lparr> platform = Darwin, ps_output = None, proc_ports = (\<lambda>p. []),
       ss_ports = (\<lambda>p. None), lsof_ports = (\<lambda>p. Some [9000, 8000]), state_db = None,
       legacy_config = None \<rparr>"

definition linux_state :: os_state where
  "linux_state =
     \<lparr> platform = Linux, ps_output = None, proc_ports = (\<lambda>p. [9000, 8000]),
       ss_ports = (\<lambda>p. None), lsof_ports = (\<lambda>p. None), state_db = None,
       legacy_config = None \<rparr>"

definition freebsd_state :: os_state where
  \<open>freebsd_state =
     \<lparr> platform = OtherPlatform ''freebsd'', ps_output = None, proc_ports = (\<lambda>p. []),
       ss_ports = (\<lambda>p. None), lsof_ports = (\<lambda>p. None), state_db = None,
       legacy_config = Some (Some ''{"apiKey":"sk-test"}'') \<rparr>\<close>

definition keyed_state :: os_state where
  \<open>keyed_state =
     \<lparr> platform = Linux, ps_output = Some ps_line_ready, proc_ports = (\<lambda>p. [42001]),
       ss_ports = (\<lambda>p. None), lsof_ports = (\<lambda>p. None),
       state_db = Some (Some (''{"apiKey":"sk-test"}'' @ nl)), legacy_config = None \<rparr>\<close>

text \<open>A plain request, and a request whose conversation holds a tool result.\<close>

definition user_message :: "string \<Rightarrow> message" where
  "user_message c =
     \<lparr> role = ''user'', content = CString c, msg_name = None, tool_call_id = None,
       tool_calls = None \<rparr>"

definition tool_message :: "string \<Rightarrow> message" where
  "tool_message c =
     \<lparr> role = ''tool'', content = CString c, msg_name = None, tool_call_id = None,
       tool_calls = None \<rparr>"

definition plain_request :: ChatCompletionRequest where
  "plain_request =
     \<lparr> model = Some ''gpt-5.2'', messages = Some [user_message ''hi''], stream = True,
       tools = None, providerOptions = JUndefined \<rparr>"

definition tool_request :: ChatCompletionRequest where
  "tool_request =
     \<lparr> model = Some ''gpt-5.2'',
       messages = Some [user_message ''hi'', tool_message ''tool-secret''], stream = True,
       tools = None, providerOptions = JUndefined \<rparr>"

text \<open>Claim C4 in its own words: the sequence ends with a chunk whose delta is empty and
  whose finish reason is terminal, then \<^verbatim>\<open>[DONE]\<close>; everything before is a content
  chunk.\<close>

definition content_chunk :: "sse_event \<Rightarrow> bool" where
  "content_chunk ev = (case ev of Data c \<Rightarrow> finish_reason c = None | other \<Rightarrow> False)"

definition claimed_stream_shape :: "sse_event list \<Rightarrow> bool" where
  "claimed_stream_shape evs =
     (case rev evs of
        Done # Data c # before \<Rightarrow>
          chunk_delta c = ContentDelta (JStr '''')
          \<and> (finish_reason c = Some ''stop'' \<or> finish_reason c = Some ''tool_calls'')
          \<and> list_all content_chunk before
      | other \<Rightarrow> False)"

text \<open>Claim C7 in its own words: the system contents, then the user contents, joined by
  blank lines.\<close>

definition claimed_outbound :: "message list \<Rightarrow> string" where
  "claimed_outbound ms =
     join (nl @ nl)
       (map (\<lambda>m. flatten_content (content m)) (filter (\<lambda>m. role m = ''system'') ms)
        @ map (\<lambda>m. flatten_content (content m)) (filter (\<lambda>m. role m = ''user'') ms))"

text \<open>An environment whose language server answers \<^verbatim>\<open>leaked\<close> when the text it receives
  contains \<^verbatim>\<open>tool-secret\<close>.\<close>

definition probe_env :: env where
  "probe_env =
     \<lparr> now = 1700000000000, uuid = ''0000'', getDefaultModel = ''claude-3.5-sonnet'',
       resolveModel = (\<lambda>m v. \<lparr> modelId = m, variant = v, enumValue = 166, modelUid = None \<rparr>),
       stringify = (\<lambda>v. ''{}''), stringify_pretty = (\<lambda>v. ''{}''),
       cascade = (\<lambda>m t. \<lparr> yielded = [if str_includes t ''tool-secret'' then ''leaked'' else ''clean''],
                           thrown = None \<rparr>) \<rparr>"

text \<open>A conversation with one message of each role.\<close>

definition mixed_messages :: "message list" where
  "mixed_messages =
     [\<lparr> role = ''user'', content = CString ''hi'', msg_name = None, tool_call_id = None,
        tool_calls = None \<rparr>,
      \<lparr> role = ''assistant'', content = CString ''earlier answer'', msg_name = None,
        tool_call_id = None, tool_calls = None \<rparr>,
      \<lparr> role = ''system'', content = CString ''be brief'', msg_name = None,
        tool_call_id = None, tool_calls = None \<rparr>,
      \<lparr> role = ''tool'', content = CString ''tool-secret'', msg_name = None,
        tool_call_id = None, tool_calls = None \<rparr>]"

text \<open>A request whose body has no \<^verbatim>\<open>messages\<close>, and a request with the conversation
  above.\<close>

definition bodyless_request :: ChatCompletionRequest where
  "bodyless_request =
     \<lparr> model = None, messages = None, stream = False, tools = None,
       providerOptions = JUndefined \<rparr>"

definition mixed_request :: ChatCompletionRequest where
  "mixed_request =
     \<lparr> model = Some ''gpt-5.2'', messages = Some mixed_messages, stream = False,
       tools = None, providerOptions = JUndefined \<rparr>"

section \<open>Verified properties\<close>

subsection \<open>normalizeToolArguments is idempotent\<close>

lemma update_fresh: "k \<notin> fst ` set al \<Longrightarrow> AList.update k v al = al @ [(k, v)]"
  by (induction al) auto

lemma set_update_sub: "set (AList.update k v al) \<subseteq> insert (k, v) (set al)"
  by (induction al) auto

lemma assign_fold_fixed:
  "distinct (map fst (acc @ xs)) \<Longrightarrow> ''__proto__'' \<notin> fst ` set xs \<Longrightarrow>
   foldl (\<lambda>obj kv. obj_set obj (fst kv) (snd kv)) acc xs = acc @ xs"
proof (induction xs arbitrary: acc)
  case Nil
  then show ?case by simp
next
  case (Cons x xs)
  have fresh: "fst x \<notin> fst ` set acc" using Cons.prems(1) by auto
  have step: "obj_set acc (fst x) (snd x) = acc @ [x]"
    using Cons.prems(2) fresh by (auto simp: obj_set_def update_fresh)
  have "distinct (map fst ((acc @ [x]) @ xs))" using Cons.prems(1) by simp
  moreover have "''__proto__'' \<notin> fst ` set xs" using Cons.prems(2) by simp
  ultimately show ?case using Cons.IH [of "acc @ [x]"] step by simp
qed

lemma assign_fold_inv:
  "distinct (map fst acc) \<Longrightarrow> ''__proto__'' \<notin> fst ` set acc \<Longrightarrow>
   distinct (map fst (foldl (\<lambda>obj kv. obj_set obj (fst kv) (snd kv)) acc xs)) \<and>
   ''__proto__'' \<notin> fst ` set (foldl (\<lambda>obj kv. obj_set obj (fst kv) (snd kv)) acc xs)"
proof (induction xs arbitrary: acc)
  case Nil
  then show ?case by simp
next
  case (Cons x xs)
  have "distinct (map fst (obj_set acc (fst x) (snd x)))"
    using Cons.prems(1) by (simp add: obj_set_def distinct_update)
  moreover have "''__proto__'' \<notin> fst ` set (obj_set acc (fst x) (snd x))"
    using Cons.prems(2) by (simp add: obj_set_def dom_update)
  ultimately show ?case using Cons.IH by simp
qed

lemma assign_fold_values:
  "snd ` set (foldl (\<lambda>obj kv. obj_set obj (fst kv) (snd kv)) acc xs) \<subseteq> snd ` set acc \<union> snd ` set xs"
proof (induction xs arbitrary: acc)
  case Nil
  then show ?case by simp
next
  case (Cons x xs)
  have "set (obj_set acc (fst x) (snd x)) \<subseteq> insert (fst x, snd x) (set acc)"
    using set_update_sub [of "fst x" "snd x" acc] by (auto simp: obj_set_def)
  then have "snd ` set (obj_set acc (fst x) (snd x)) \<subseteq> insert (snd x) (snd ` set acc)"
    by force
  moreover have "snd ` set (foldl (\<lambda>obj kv. obj_set obj (fst kv) (snd kv)) (obj_set acc (fst x) (snd x)) xs)
      \<subseteq> snd ` set (obj_set acc (fst x) (snd x)) \<union> snd ` set xs"
    by (rule Cons.IH)
  ultimately have "snd ` set (foldl (\<lambda>obj kv. obj_set obj (fst kv) (snd kv)) (obj_set acc (fst x) (snd x)) xs)
      \<subseteq> insert (snd x) (snd ` set acc) \<union> snd ` set xs"
    by blast
  then show ?case by simp
qed

lemma assign_entries_again:
  "assign_entries (assign_entries xs) = assign_entries xs"
proof -
  have "distinct (map fst (assign_entries xs)) \<and> ''__proto__'' \<notin> fst ` set (assign_entries xs)"
    unfolding assign_entries_def using assign_fold_inv [of "[]" xs] by simp
  then show ?thesis
    using assign_fold_fixed [of "[]" "assign_entries xs"] by (simp add: assign_entries_def)
qed

lemma assign_entries_values: "snd ` set (assign_entries xs) \<subseteq> snd ` set xs"
  unfolding assign_entries_def using assign_fold_values [of "[]" xs] by simp

lemma normalize_idem:
  "normalizeToolArguments P (normalizeToolArguments P x) = normalizeToolArguments P x"
proof (induction P x rule: normalizeToolArguments.induct)
  case (3 P raw)
  then show ?case by (auto split: option.splits)
next
  case (4 P xs)
  then show ?case by simp
next
  case (5 P kvs)
  let ?N = "normalizeToolArguments P"
  let ?ys = "map (\<lambda>kv. (fst kv, ?N (snd kv))) kvs"
  let ?res = "assign_entries ?ys"
  have fixed: "?N (snd kv) = snd kv" if "kv \<in> set ?res" for kv
  proof -
    from that have "snd kv \<in> snd ` set ?ys" using assign_entries_values [of ?ys] by blast
    then obtain kv' where "kv' \<in> set kvs" and "snd kv = ?N (snd kv')" by auto
    then show ?thesis using "5.IH" by simp
  qed
  have "map (\<lambda>kv. (fst kv, ?N (snd kv))) ?res = ?res"
    by (rule map_idI) (simp add: fixed)
  then show ?case by (simp add: assign_entries_again)
qed (simp_all add: assign_entries_def)

text \<open>
  Claim C10. normalizeToolArguments is idempotent on every value: applying it to its own
  result changes nothing. In particular null and undefined become the empty object, and
  a string whose trimmed form is not enclosed in matching braces or brackets is returned
  unchanged.
\<close>

theorem normalizeToolArguments_idempotent:
  "normalizeToolArguments P (normalizeToolArguments P x) = normalizeToolArguments P x
   \<and> normalizeToolArguments P JNull = JObj []
   \<and> normalizeToolArguments P JUndefined = JObj []
   \<and> (\<not> looksJson (trim s) \<longrightarrow> normalizeToolArguments P (JStr s) = JStr s)"
  by (simp add: normalize_idem)

theorem normalizeToolArguments_idempotent_witness:
  \<open>normalizeToolArguments sample_parser (JArr [JNull, JStr ''  {"a":null} '', JStr ''plain''])
     = JArr [JObj [], JObj [(''a'', JObj [])], JStr ''plain'']
   \<and> normalizeToolArguments sample_parser (JArr [JObj [], JObj [(''a'', JObj [])], JStr ''plain''])
     = JArr [JObj [], JObj [(''a'', JObj [])], JStr ''plain'']
   \<and> \<not> looksJson (trim ''plain'') \<and> normalizeToolArguments sample_parser (JStr ''plain'') = JStr ''plain''\<close>
proof -
  have a: \<open>normalizeToolArguments sample_parser (JArr [JNull, JStr ''  {"a":null} '', JStr ''plain''])
     = JArr [JObj [], JObj [(''a'', JObj [])], JStr ''plain'']\<close>
    by code_simp
  have b: "\<not> looksJson (trim ''plain'')" by code_simp
  have i: \<open>normalizeToolArguments sample_parser
             (normalizeToolArguments sample_parser (JArr [JNull, JStr ''  {"a":null} '', JStr ''plain'']))
           = normalizeToolArguments sample_parser (JArr [JNull, JStr ''  {"a":null} '', JStr ''plain''])\<close>
    and j: "\<not> looksJson (trim ''plain'') \<longrightarrow> normalizeToolArguments sample_parser (JStr ''plain'') = JStr ''plain''"
    using normalizeToolArguments_idempotent [of sample_parser _ "''plain''"] by blast+
  have c: "normalizeToolArguments sample_parser (JArr [JObj [], JObj [(''a'', JObj [])], JStr ''plain''])
     = JArr [JObj [], JObj [(''a'', JObj [])], JStr ''plain'']"
    using i unfolding a .
  show ?thesis using a b c j by blast
qed

subsection \<open>parseToolCallPlan never throws\<close>

lemma filterE_sound:
  "filterE f xs = Inr ys \<Longrightarrow> y \<in> set ys \<Longrightarrow> f y = Inr True"
proof (induction xs arbitrary: ys)
  case Nil
  then show ?case by simp
next
  case (Cons x xs)
  then show ?case
    by (auto split: sum.splits if_splits)
qed

lemma mapE_sound:
  "mapE f xs = Inr ys \<Longrightarrow> y \<in> set ys \<Longrightarrow> \<exists>x \<in> set xs. f x = Inr y"
proof (induction xs arbitrary: ys)
  case Nil
  then show ?case by simp
next
  case (Cons x xs)
  then show ?case
    by (auto split: sum.splits)
qed

lemma named_call:
  assumes "has_string_name t = Inr True" and "to_tool_call P t = Inr c"
  shows "is_string (tc_name c)"
  using assms
  by (auto simp: has_string_name_def to_tool_call_def split: if_splits sum.splits)

lemma parsePlanJson_well_formed:
  assumes "parsePlanJson P t = Inr r"
  shows "well_formed_plan r"
proof -
  from assms obtain parsed where p: "JSON_parse P t = Some parsed"
    by (auto simp: parsePlanJson_def split: option.splits)
  show ?thesis
  proof (cases "final_content parsed")
    case (Inl e)
    with assms p show ?thesis by (simp add: parsePlanJson_def)
  next
    case (Inr fc)
    show ?thesis
    proof (cases fc)
      case (Some c)
      with Inr have "is_string c"
        by (auto simp: final_content_def split: if_splits sum.splits)
      moreover from assms p Inr Some have "r = Some (Final c)"
        by (simp add: parsePlanJson_def)
      ultimately show ?thesis by simp
    next
      case None
      show ?thesis
      proof (cases "tool_call_items parsed")
        case (Inl e)
        with assms p Inr None show ?thesis by (simp add: parsePlanJson_def)
      next
        case items: (Inr it)
        show ?thesis
        proof (cases it)
          case None': None
          with assms p Inr None items have "r = None" by (simp add: parsePlanJson_def)
          then show ?thesis by simp
        next
          case (Some its)
          from assms p Inr None items Some obtain named calls where
            n: "filterE has_string_name its = Inr named" and
            c: "mapE (to_tool_call P) named = Inr calls" and
            r: "r = Some (ToolCall calls)"
            by (auto simp: parsePlanJson_def split: sum.splits)
          have "is_string (tc_name call)" if "call \<in> set calls" for call
          proof -
            from mapE_sound [OF c that] obtain t where
              "t \<in> set named" and "to_tool_call P t = Inr call" by blast
            with filterE_sound [OF n] show ?thesis by (blast intro: named_call)
          qed
          with r show ?thesis by (simp add: list_all_iff)
        qed
      qed
    qed
  qed
qed

lemma parsePlanTags_well_formed: "well_formed_plan (parsePlanTags P output)"
  by (auto simp: parsePlanTags_def Let_def list_all_iff List.map_filter_def split: option.splits)

text \<open>
  Claim C9. parseToolCallPlan is total: for every parser and every output string it
  returns, without throwing, either null or a plan; the content of a returned final plan
  is a string and every tool call of a returned tool-call plan has a string name.
\<close>

theorem parseToolCallPlan_total:
  "\<exists>r. parseToolCallPlan P output = Inr r \<and> well_formed_plan r"
proof (cases "indexOf output (CHR ''{'')")
  case None
  then show ?thesis by (simp add: parseToolCallPlan_def)
next
  case (Some start)
  show ?thesis
  proof (cases "lastIndexOf output (CHR ''}'')")
    case None
    with Some show ?thesis by (simp add: parseToolCallPlan_def)
  next
    case e: (Some e)
    show ?thesis
    proof (cases "e \<le> start")
      case True
      with Some e show ?thesis by (simp add: parseToolCallPlan_def)
    next
      case False
      show ?thesis
      proof (cases "parsePlanJson P (slice output start (e + 1))")
        case (Inl err)
        with Some e False show ?thesis
          by (simp add: parseToolCallPlan_def parsePlanTags_well_formed)
      next
        case (Inr r)
        with Some e False show ?thesis
          by (simp add: parseToolCallPlan_def parsePlanJson_well_formed)
      qed
    qed
  qed
qed

theorem parseToolCallPlan_total_witness:
  "parseToolCallPlan sample_parser scenario6
     = Inr (Some (ToolCall [\<lparr> tc_name = JStr ''read_file'',
                             tc_arguments = JObj [(''path'', JStr ''a.txt'')] \<rparr>]))
   \<and> well_formed_plan (Some (ToolCall [\<lparr> tc_name = JStr ''read_file'',
                             tc_arguments = JObj [(''path'', JStr ''a.txt'')] \<rparr>]))"
proof -
  have a: "parseToolCallPlan sample_parser scenario6
     = Inr (Some (ToolCall [\<lparr> tc_name = JStr ''read_file'',
                             tc_arguments = JObj [(''path'', JStr ''a.txt'')] \<rparr>]))"
    by code_simp
  from parseToolCallPlan_total [of sample_parser scenario6] obtain r where
    r: "parseToolCallPlan sample_parser scenario6 = Inr r" and wf: "well_formed_plan r" by blast
  from r a have "r = Some (ToolCall [\<lparr> tc_name = JStr ''read_file'',
                             tc_arguments = JObj [(''path'', JStr ''a.txt'')] \<rparr>])"
    by simp
  with wf a show ?thesis by (simp only: simp_thms)
qed

subsection \<open>Credential errors\<close>

lemmas line_eval =
  getLanguageServerProcesses_def parseProcessLine_def pidMatch_def csrfMatch_def portMatch_def
  flagAt_def is_space_def is_digit_def is_csrf_char_def parseInt10_def digit_val_def
  ps_line_no_csrf_def ps_line_ready_def

lemma no_csrf_processes: "getLanguageServerProcesses no_csrf_state = []"
  by (simp add: no_csrf_state_def line_eval)

lemma ready_processes:
  "getLanguageServerProcesses ready_no_key_state =
     [\<lparr> pid = ''4242'', csrfToken = ''0a1b-2c3d'', extensionServerPort = Some 42000,
        line = ps_line_ready \<rparr>]"
  by (simp add: ready_no_key_state_def line_eval)



lemma set_map_filter: "set (List.map_filter f xs) = {y. \<exists>x \<in> set xs. f x = Some y}"
  by (induction xs) (auto simp: List.map_filter_simps split: option.splits)







subsection \<open>Port selection\<close>

text \<open>What getPortForPid returns for a known, non-zero extension port: on Linux the
  smallest listening port above it, else the smallest listening port; on macOS the
  smallest listening port above it, else the first port listed; the extension port plus 3
  when no listening port was found.\<close>

lemma hd_sort_Min:
  fixes xs :: "nat list"
  assumes "xs \<noteq> []"
  shows "hd (sort xs) = Min (set xs)"
proof -
  from assms have "sort xs \<noteq> []" by (metis length_0_conv length_sort)
  then obtain y ys where s: "sort xs = y # ys" by (cases "sort xs") auto
  have "sorted (sort xs)" by simp
  then have "sorted (y # ys)" using s by simp
  then have le: "\<forall>z \<in> set (y # ys). y \<le> z" by auto
  have "set (sort xs) = set xs" by simp
  then have mem: "set (y # ys) = set xs" using s by simp
  have "Min (set xs) = y"
  proof (rule Min_eqI)
    show "finite (set xs)" by simp
    show "\<And>z. z \<in> set xs \<Longrightarrow> y \<le> z" using le mem by blast
    show "y \<in> set xs" using mem by auto
  qed
  with s show ?thesis by simp
qed

lemma portsAfter_head:
  assumes "extPort = Some e" and "0 < e"
  shows "portsAfter extPort ports =
           (if \<exists>q \<in> set ports. e < q
            then sort (filter (\<lambda>q. e < q) ports) else [])"
  using assms by (auto simp: portsAfter_def filter_empty_conv)

lemma getPortForPid_linux_rule:
  assumes "platform st = Linux" and "proc_ports st p \<noteq> []" and "extPort = Some e" and "0 < e"
  shows "getPortForPid st p extPort =
           Some (if \<exists>q \<in> set (proc_ports st p). e < q
                 then Min {q \<in> set (proc_ports st p). e < q}
                 else Min (set (proc_ports st p)))"
proof (cases "\<exists>q \<in> set (proc_ports st p). e < q")
  case True
  then have ne: "filter (\<lambda>q. e < q) (proc_ports st p) \<noteq> []"
    by (simp add: filter_empty_conv)
  then have "sort (filter (\<lambda>q. e < q) (proc_ports st p)) \<noteq> []"
    by (metis length_0_conv length_sort)
  then obtain a as where s: "sort (filter (\<lambda>q. e < q) (proc_ports st p)) = a # as"
    by (cases "sort (filter (\<lambda>q. e < q) (proc_ports st p))") auto
  have "a = Min (set (filter (\<lambda>q. e < q) (proc_ports st p)))"
    using hd_sort_Min [OF ne] s by simp
  moreover have "set (filter (\<lambda>q. e < q) (proc_ports st p)) = {q \<in> set (proc_ports st p). e < q}"
    by auto
  ultimately show ?thesis
    using assms True s by (simp add: getPortForPid_def portsAfter_head)
next
  case False
  with assms show ?thesis
    by (simp add: getPortForPid_def portsAfter_head hd_sort_Min)
qed

lemma getPortForPid_darwin_rule:
  assumes "platform st = Darwin" and "lsof_ports st p = Some ports" and "ports \<noteq> []"
    and "extPort = Some e" and "0 < e"
  shows "getPortForPid st p extPort =
           Some (if \<exists>q \<in> set ports. e < q then Min {q \<in> set ports. e < q} else hd ports)"
proof (cases "\<exists>q \<in> set ports. e < q")
  case True
  then have ne: "filter (\<lambda>q. e < q) ports \<noteq> []"
    by (simp add: filter_empty_conv)
  then have "sort (filter (\<lambda>q. e < q) ports) \<noteq> []"
    by (metis length_0_conv length_sort)
  then obtain a as where s: "sort (filter (\<lambda>q. e < q) ports) = a # as"
    by (cases "sort (filter (\<lambda>q. e < q) ports)") auto
  have "a = Min (set (filter (\<lambda>q. e < q) ports))"
    using hd_sort_Min [OF ne] s by simp
  moreover have "set (filter (\<lambda>q. e < q) ports) = {q \<in> set ports. e < q}"
    by auto
  ultimately show ?thesis
    using assms True s by (simp add: getPortForPid_def portsAfter_head)
next
  case False
  with assms show ?thesis
    by (simp add: getPortForPid_def portsAfter_head)
qed

lemma getPortForPid_last_resort:
  assumes "platform st = Linux \<longrightarrow> proc_ports st p = [] \<and> (ss_ports st p = None \<or> ss_ports st p = Some [])"
    and "platform st = Darwin \<longrightarrow> (lsof_ports st p = None \<or> lsof_ports st p = Some [])"
    and "0 < e"
  shows "getPortForPid st p (Some e) = Some (e + 3)"
  using assms by (cases "platform st") (auto simp: getPortForPid_def lastResort_def)

text \<open>
  Claim C3. On macOS, with no listening port above the extension port, getPortForPid
  returns the first port that lsof lists, here 9000, not the smallest, 8000; the Linux
  branch sorts the same listing and returns 8000.
\<close>

theorem getPortForPid_darwin_first_listed:
  "lsof_ports mac_state ''4242'' = Some [9000, 8000]
   \<and> getPortForPid mac_state ''4242'' (Some 42000) = Some 9000
   \<and> proc_ports linux_state ''4242'' = [9000, 8000]
   \<and> getPortForPid linux_state ''4242'' (Some 42000) = Some 8000"
  by (simp add: mac_state_def linux_state_def getPortForPid_def portsAfter_def)

subsection \<open>The API key\<close>

lemma weight_pos: "0 < weight v"
  by (cases v) simp_all

lemma parse_empty: "JSON_parse P [] = None"
proof (cases "JSON_parse P []")
  case None
  then show ?thesis .
next
  case (Some v)
  moreover have "\<forall>s v. JSON_parse P s = Some v \<longrightarrow> weight v \<le> length s"
    using JSON_parse [of P] by simp
  ultimately have "weight v \<le> 0" by fastforce
  with weight_pos [of v] show ?thesis by simp
qed

lemma readApiKey_key:
  "(case readApiKey P text of Inl e \<Rightarrow> None | Inr r \<Rightarrow> r) = json_api_key P text"
proof (cases "JSON_parse P text")
  case None
  then show ?thesis by (simp add: readApiKey_def json_api_key_def)
next
  case (Some parsed)
  then show ?thesis
    by (cases parsed) (simp_all add: readApiKey_def json_api_key_def split: option.splits)
qed

text \<open>
  Claim C5, amended. On macOS, Linux and Windows getApiKey returns the truthy apiKey of
  the state-database value when that value parses as JSON with one; otherwise the truthy
  apiKey of the legacy configuration file; and it throws API_KEY_MISSING exactly when
  neither source yields one. On any other platform it throws API_KEY_MISSING without
  reading either source.
\<close>

theorem getApiKey_sources:
  "getApiKey P st =
     (if VSCODE_STATE_PATHS (platform st) = None then
        Inl (WindsurfError (''Unsupported platform: '' @ platform_name (platform st)) API_KEY_MISSING)
      else (case state_key P st of
              Some k \<Rightarrow> Inr k
            | None \<Rightarrow>
                (case legacy_key P st of
                   Some k \<Rightarrow> Inr k
                 | None \<Rightarrow>
                     Inl (WindsurfError ''API key not found. Please login to Windsurf first.''
                            API_KEY_MISSING))))"
proof -
  have empty: "json_api_key P [] = None"
    by (simp add: json_api_key_def parse_empty)
  show ?thesis
    by (auto simp: getApiKey_def state_key_def legacy_key_def key_missing_def readApiKey_key
          empty Let_def split: option.splits)
qed

theorem getApiKey_sources_witness:
  "VSCODE_STATE_PATHS (platform keyed_state) \<noteq> None
   \<and> state_key sample_parser keyed_state = Some (JStr ''sk-test'')
   \<and> getApiKey sample_parser keyed_state = Inr (JStr ''sk-test'')"
proof -
  have a: "VSCODE_STATE_PATHS (platform keyed_state) \<noteq> None"
    by (simp add: keyed_state_def)
  have b: "state_key sample_parser keyed_state = Some (JStr ''sk-test'')"
    by (simp add: keyed_state_def state_key_def json_api_key_def trim_def nl_def is_space_def
          sample_parser.rep_eq sample_texts_def)
  have "getApiKey sample_parser keyed_state = Inr (JStr ''sk-test'')"
    using getApiKey_sources [of sample_parser keyed_state] a b by (simp only: if_False option.case)
  with a b show ?thesis by blast
qed

text \<open>Claim C5 as stated fails on an unsupported platform: the legacy file holds a key,
  and getApiKey throws.\<close>

theorem getApiKey_unsupported_platform_counterexample:
  "legacy_key sample_parser freebsd_state = Some (JStr ''sk-test'')
   \<and> getApiKey sample_parser freebsd_state
       = Inl (WindsurfError ''Unsupported platform: freebsd'' API_KEY_MISSING)"
  by code_simp

subsection \<open>Status codes of the chat-completions endpoint\<close>

lemma running_iff:
  "isWindsurfRunning st \<longleftrightarrow> (\<exists>t p. getCSRFToken st = Inr t \<and> getPort st = Inr p)"
  by (auto simp: isWindsurfRunning_def split: sum.splits)

lemma running_credentials_error:
  assumes "isWindsurfRunning st" and "getCredentials P st = Inl e"
  shows "\<exists>m. e = WindsurfError m API_KEY_MISSING"
proof -
  from assms(1) obtain t p where "getCSRFToken st = Inr t" and "getPort st = Inr p"
    by (auto simp: running_iff)
  with assms(2) have "getApiKey P st = Inl e"
    by (auto simp: getCredentials_def split: sum.splits)
  then show ?thesis
    by (auto simp: getApiKey_def key_missing_def Let_def split: option.splits if_splits)
qed

lemma chatCompletion_ok_status:
  "chatCompletion P E st rb = Inr r \<Longrightarrow> status r = 200"
  by (auto simp: chatCompletion_def event_stream_def json_ok_def split: sum.splits if_splits)

text \<open>
  Claim C1, amended. On the chat-completions paths the response is 503, with the
  OpenAI-shaped error body, exactly when the readiness probe isWindsurfRunning fails.
  Once the probe has passed, every exception of the handler is answered with 500 and
  the message "Chat completion failed", followed by the message of the exception; the
  errors of getCredentials are among these exceptions, and in a state where the probe
  passes such an error is the tagged API_KEY_MISSING. A handler that returns gives its
  own response, with status 200.
\<close>

theorem chat_completions_status:
  assumes "pathname = ''/v1/chat/completions'' \<or> pathname = ''/chat/completions''"
  shows "(\<not> isWindsurfRunning probe \<longrightarrow>
            fetch P E probe st pathname rb
              = openAIError 503 ''Windsurf is not running. Please launch Windsurf first.'' None)
       \<and> (\<forall>err. isWindsurfRunning probe \<and> chatCompletion P E st rb = Inl err \<longrightarrow>
            fetch P E probe st pathname rb
              = openAIError 500 ''Chat completion failed'' (Some (error_message err)))
       \<and> (\<forall>r. isWindsurfRunning probe \<and> chatCompletion P E st rb = Inr r \<longrightarrow>
            fetch P E probe st pathname rb = r \<and> status r = 200)
       \<and> (\<forall>e. getCredentials P st = Inl e \<longrightarrow> chatCompletion P E st rb = Inl e)
       \<and> (\<forall>e. isWindsurfRunning probe \<and> getCredentials P st = Inl e \<longrightarrow>
            fetch P E probe st pathname rb
              = openAIError 500 ''Chat completion failed'' (Some (error_message e)))
       \<and> (\<forall>e. isWindsurfRunning st \<and> getCredentials P st = Inl e \<longrightarrow>
            (\<exists>m. e = WindsurfError m API_KEY_MISSING))
       \<and> (status (fetch P E probe st pathname rb) = 503 \<longleftrightarrow> \<not> isWindsurfRunning probe)"
proof (intro conjI allI impI)
  assume "\<not> isWindsurfRunning probe"
  with assms show "fetch P E probe st pathname rb
      = openAIError 503 ''Windsurf is not running. Please launch Windsurf first.'' None"
    by (auto simp: fetch_def)
next
  fix err
  assume "isWindsurfRunning probe \<and> chatCompletion P E st rb = Inl err"
  with assms show "fetch P E probe st pathname rb
      = openAIError 500 ''Chat completion failed'' (Some (error_message err))"
    by (auto simp: fetch_def)
next
  fix r
  assume h: "isWindsurfRunning probe \<and> chatCompletion P E st rb = Inr r"
  with assms show "fetch P E probe st pathname rb = r" by (auto simp: fetch_def)
  from h have "chatCompletion P E st rb = Inr r" by simp
  then show "status r = 200" by (rule chatCompletion_ok_status)
next
  fix e
  assume "getCredentials P st = Inl e"
  then show "chatCompletion P E st rb = Inl e" by (simp add: chatCompletion_def)
next
  fix e
  assume h: "isWindsurfRunning probe \<and> getCredentials P st = Inl e"
  then have "chatCompletion P E st rb = Inl e" by (simp add: chatCompletion_def)
  with h assms show "fetch P E probe st pathname rb
      = openAIError 500 ''Chat completion failed'' (Some (error_message e))"
    by (auto simp: fetch_def)
next
  fix e
  assume "isWindsurfRunning st \<and> getCredentials P st = Inl e"
  then show "\<exists>m. e = WindsurfError m API_KEY_MISSING"
    by (blast intro: running_credentials_error)
next
  show "status (fetch P E probe st pathname rb) = 503 \<longleftrightarrow> \<not> isWindsurfRunning probe"
  proof (cases "isWindsurfRunning probe")
    case False
    with assms show ?thesis by (auto simp: fetch_def openAIError_def)
  next
    case True
    show ?thesis
    proof (cases "chatCompletion P E st rb")
      case (Inl err)
      with True assms show ?thesis by (auto simp: fetch_def openAIError_def)
    next
      case (Inr r)
      with True assms chatCompletion_ok_status [OF Inr] show ?thesis by (auto simp: fetch_def)
    qed
  qed
qed

lemma ready_running: "isWindsurfRunning ready_no_key_state"
  by (simp add: isWindsurfRunning_def getCSRFToken_def getPort_def ready_processes)
     (simp add: getPortForPid_def ready_no_key_state_def portsAfter_def)

lemma ready_credentials:
  "getCredentials sample_parser ready_no_key_state
     = Inl (WindsurfError ''API key not found. Please login to Windsurf first.'' API_KEY_MISSING)"
proof -
  have "getApiKey sample_parser ready_no_key_state = Inl key_missing"
    by (simp add: getApiKey_def ready_no_key_state_def)
  moreover from ready_running obtain t p where
    "getCSRFToken ready_no_key_state = Inr t" and "getPort ready_no_key_state = Inr p"
    by (auto simp: running_iff)
  ultimately show ?thesis by (simp add: getCredentials_def key_missing_def)
qed

lemma keyed_processes:
  "getLanguageServerProcesses keyed_state =
     [\<lparr> pid = ''4242'', csrfToken = ''0a1b-2c3d'', extensionServerPort = Some 42000,
        line = ps_line_ready \<rparr>]"
  by (simp add: keyed_state_def line_eval)

lemma keyed_running: "isWindsurfRunning keyed_state"
  by (simp add: isWindsurfRunning_def getCSRFToken_def getPort_def keyed_processes)
     (simp add: getPortForPid_def keyed_state_def portsAfter_def)

lemma keyed_chat:
  "chatCompletion sample_parser sample_env keyed_state bodyless_request
     = Inl (TypeError ''undefined is not an object (evaluating request.messages.filter)'')"
proof -
  have "getApiKey sample_parser keyed_state = Inr (JStr ''sk-test'')"
    by (simp add: getApiKey_def keyed_state_def trim_def nl_def is_space_def readApiKey_key
          json_api_key_def sample_parser.rep_eq sample_texts_def)
  moreover from keyed_running obtain t p where
    "getCSRFToken keyed_state = Inr t" and "getPort keyed_state = Inr p"
    by (auto simp: running_iff)
  ultimately obtain c where "getCredentials sample_parser keyed_state = Inr c"
    by (simp add: getCredentials_def)
  then show ?thesis
    by (simp add: chatCompletion_def bodyless_request_def hasToolsField_def hasToolMessages_def
          createNonStreamingResponse_def)
qed

theorem chat_completions_status_witness:
  "\<not> isWindsurfRunning no_csrf_state
   \<and> fetch sample_parser sample_env no_csrf_state no_csrf_state ''/v1/chat/completions'' plain_request
       = openAIError 503 ''Windsurf is not running. Please launch Windsurf first.'' None
   \<and> isWindsurfRunning ready_no_key_state
   \<and> fetch sample_parser sample_env ready_no_key_state ready_no_key_state
         ''/v1/chat/completions'' plain_request
       = openAIError 500 ''Chat completion failed''
           (Some ''API key not found. Please login to Windsurf first.'')
   \<and> isWindsurfRunning keyed_state
   \<and> chatCompletion sample_parser sample_env keyed_state bodyless_request
       = Inl (TypeError ''undefined is not an object (evaluating request.messages.filter)'')
   \<and> fetch sample_parser sample_env keyed_state keyed_state ''/v1/chat/completions'' bodyless_request
       = openAIError 500 ''Chat completion failed''
           (Some ''undefined is not an object (evaluating request.messages.filter)'')"
proof -
  have p: "''/v1/chat/completions'' = ''/v1/chat/completions'' \<or> ''/v1/chat/completions'' = ''/chat/completions''"
    by simp
  have a: "\<not> isWindsurfRunning no_csrf_state"
    by (simp add: isWindsurfRunning_def getCSRFToken_def no_csrf_processes)
  have b: "fetch sample_parser sample_env no_csrf_state no_csrf_state ''/v1/chat/completions'' plain_request
       = openAIError 503 ''Windsurf is not running. Please launch Windsurf first.'' None"
    using chat_completions_status
            [OF p, of no_csrf_state sample_parser sample_env no_csrf_state plain_request] a
    by blast
  have "fetch sample_parser sample_env ready_no_key_state ready_no_key_state
          ''/v1/chat/completions'' plain_request
       = openAIError 500 ''Chat completion failed''
           (Some (error_message (WindsurfError ''API key not found. Please login to Windsurf first.'' API_KEY_MISSING)))"
    using chat_completions_status
            [OF p, of ready_no_key_state sample_parser sample_env ready_no_key_state plain_request]
      ready_running ready_credentials
    by blast
  then have c: "fetch sample_parser sample_env ready_no_key_state ready_no_key_state
          ''/v1/chat/completions'' plain_request
       = openAIError 500 ''Chat completion failed''
           (Some ''API key not found. Please login to Windsurf first.'')"
    by (simp only: error_message.simps)
  have "fetch sample_parser sample_env keyed_state keyed_state ''/v1/chat/completions'' bodyless_request
       = openAIError 500 ''Chat completion failed''
           (Some (error_message
              (TypeError ''undefined is not an object (evaluating request.messages.filter)'')))"
    using chat_completions_status
            [OF p, of keyed_state sample_parser sample_env keyed_state bodyless_request]
      keyed_running keyed_chat
    by blast
  then have d: "fetch sample_parser sample_env keyed_state keyed_state ''/v1/chat/completions'' bodyless_request
       = openAIError 500 ''Chat completion failed''
           (Some ''undefined is not an object (evaluating request.messages.filter)'')"
    by (simp only: error_message.simps)
  from a b c d ready_running keyed_running keyed_chat show ?thesis by blast
qed

text \<open>
  Claim C1 as stated fails: the language server runs, no API key is stored, the
  resolver raises API_KEY_MISSING, and the status is 500.
\<close>

theorem api_key_missing_counterexample:
  "isWindsurfRunning ready_no_key_state
   \<and> getCredentials sample_parser ready_no_key_state
       = Inl (WindsurfError ''API key not found. Please login to Windsurf first.'' API_KEY_MISSING)
   \<and> status (fetch sample_parser sample_env ready_no_key_state ready_no_key_state
               ''/v1/chat/completions'' plain_request)
       = 500"
  by (simp add: ready_running ready_credentials fetch_def chatCompletion_def openAIError_def)

subsection \<open>The shape of the event streams\<close>

lemma hello_plan: "parseToolCallPlan P ''hello'' = Inr None"
  by (simp add: parseToolCallPlan_def indexOf_def)

lemma prompt_exists: "messages request = Some ms \<Longrightarrow> \<exists>p. buildToolPrompt E request = Inr p"
  by (simp add: buildToolPrompt_def Let_def)

lemma plain_stream:
  assumes "messages request = Some ms"
    and "thrown (streamChatGenerator E (effective_model E request) (convert_messages ms)) = None"
  shows "createStreamingResponse E request =
     map (\<lambda>t. Data \<lparr> chunk_id = ChatCmpl (uuid E), chunk_object = ''chat.completion.chunk'',
                       chunk_created = now E div 1000, chunk_model = requested_model E request,
                       chunk_delta = ContentDelta (JStr t), finish_reason = None \<rparr>)
       (yielded (streamChatGenerator E (effective_model E request) (convert_messages ms)))
     @ [Data \<lparr> chunk_id = ChatCmpl (uuid E), chunk_object = ''chat.completion.chunk'',
                chunk_created = now E div 1000, chunk_model = requested_model E request,
                chunk_delta = ContentDelta (JStr ''''), finish_reason = Some ''stop'' \<rparr>,
        Done]"
proof -
  have "concat (map (\<lambda>c. as_chunk (createOpenAICompatibleResponse E i m c True None)) ts)
      = map (\<lambda>t. Data \<lparr> chunk_id = i, chunk_object = ''chat.completion.chunk'',
                       chunk_created = now E div 1000, chunk_model = m,
                       chunk_delta = ContentDelta (JStr t), finish_reason = None \<rparr>) ts"
    for i m ts
    by (induction ts) (simp_all add: as_chunk_def createOpenAICompatibleResponse_def)
  then show ?thesis
    using assms
    by (simp add: createStreamingResponse_def Let_def as_chunk_def createOpenAICompatibleResponse_def)
qed

lemma shape_of_plain:
  "claimed_stream_shape
     (map (\<lambda>t. Data \<lparr> chunk_id = i, chunk_object = ob, chunk_created = cr, chunk_model = m,
                       chunk_delta = ContentDelta (JStr t), finish_reason = None \<rparr>) ts
      @ [Data \<lparr> chunk_id = i, chunk_object = ob, chunk_created = cr, chunk_model = m,
                 chunk_delta = ContentDelta (JStr ''''), finish_reason = Some ''stop'' \<rparr>,
         Done])"
  by (simp add: claimed_stream_shape_def list_all_iff content_chunk_def)

text \<open>
  Claim C4, amended. On the plain streaming path, when the generator ends without an
  error, the events are the content chunks (finish reason null), then one chunk with
  the empty content and finish reason "stop", then [DONE]. On the tool-planning
  streaming path, when planning succeeds, the events are exactly one chunk, which
  carries the tool calls with finish reason "tool_calls" or the final content with
  finish reason "stop", and then [DONE]; no separate empty chunk is sent.
\<close>

theorem streaming_shapes:
  "(\<forall>ms. messages request = Some ms
          \<and> thrown (streamChatGenerator E (effective_model E request) (convert_messages ms)) = None
       \<longrightarrow> createStreamingResponse E request =
             map (\<lambda>t. Data \<lparr> chunk_id = ChatCmpl (uuid E), chunk_object = ''chat.completion.chunk'',
                               chunk_created = now E div 1000,
                               chunk_model = requested_model E request,
                               chunk_delta = ContentDelta (JStr t), finish_reason = None \<rparr>)
               (yielded (streamChatGenerator E (effective_model E request) (convert_messages ms)))
             @ [Data \<lparr> chunk_id = ChatCmpl (uuid E), chunk_object = ''chat.completion.chunk'',
                        chunk_created = now E div 1000, chunk_model = requested_model E request,
                        chunk_delta = ContentDelta (JStr ''''), finish_reason = Some ''stop'' \<rparr>,
                Done]
           \<and> claimed_stream_shape (createStreamingResponse E request))
   \<and> (\<forall>r. planToolCall P E request = Inr r
       \<longrightarrow> (\<exists>c. handleToolPlanningStream P E request = [Data c, Done]
                \<and> (case plan r of
                      Some (ToolCall tcs) \<Rightarrow>
                        chunk_delta c = ToolCallsDelta (map_tool_calls E True tcs)
                        \<and> finish_reason c = Some ''tool_calls''
                    | other \<Rightarrow>
                        chunk_delta c = ContentDelta (final_text r)
                        \<and> finish_reason c = Some ''stop'')))"
proof (intro conjI allI impI)
  fix ms
  assume h: "messages request = Some ms
    \<and> thrown (streamChatGenerator E (effective_model E request) (convert_messages ms)) = None"
  then show "createStreamingResponse E request =
             map (\<lambda>t. Data \<lparr> chunk_id = ChatCmpl (uuid E), chunk_object = ''chat.completion.chunk'',
                               chunk_created = now E div 1000,
                               chunk_model = requested_model E request,
                               chunk_delta = ContentDelta (JStr t), finish_reason = None \<rparr>)
               (yielded (streamChatGenerator E (effective_model E request) (convert_messages ms)))
             @ [Data \<lparr> chunk_id = ChatCmpl (uuid E), chunk_object = ''chat.completion.chunk'',
                        chunk_created = now E div 1000, chunk_model = requested_model E request,
                        chunk_delta = ContentDelta (JStr ''''), finish_reason = Some ''stop'' \<rparr>,
                Done]"
    by (simp add: plain_stream)
  from h show "claimed_stream_shape (createStreamingResponse E request)"
    by (simp only: plain_stream shape_of_plain)
next
  fix r
  assume "planToolCall P E request = Inr r"
  then show "\<exists>c. handleToolPlanningStream P E request = [Data c, Done]
                \<and> (case plan r of
                      Some (ToolCall tcs) \<Rightarrow>
                        chunk_delta c = ToolCallsDelta (map_tool_calls E True tcs)
                        \<and> finish_reason c = Some ''tool_calls''
                    | other \<Rightarrow>
                        chunk_delta c = ContentDelta (final_text r)
                        \<and> finish_reason c = Some ''stop'')"
    by (auto simp: handleToolPlanningStream_def split: option.splits ToolCallPlan.splits)
qed

lemma sample_plan:
  "planToolCall sample_parser sample_env tool_request
     = Inr \<lparr> plan = None, plan_content = ''hello'', plan_model = ''gpt-5.2'' \<rparr>"
proof -
  obtain p where p: "buildToolPrompt sample_env tool_request = Inr p"
    using prompt_exists [of tool_request _ sample_env] by (auto simp: tool_request_def)
  show ?thesis
    by (simp add: planToolCall_def p runWindsurfOnce_def streamChatGenerator_def hello_plan
          requested_model_def or_else_def)
       (simp add: sample_env_def tool_request_def hello_plan)
qed

theorem streaming_shapes_witness:
  "messages plain_request = Some [user_message ''hi'']
   \<and> thrown (streamChatGenerator sample_env (effective_model sample_env plain_request)
               (convert_messages [user_message ''hi''])) = None
   \<and> claimed_stream_shape (createStreamingResponse sample_env plain_request)
   \<and> planToolCall sample_parser sample_env tool_request
       = Inr \<lparr> plan = None, plan_content = ''hello'', plan_model = ''gpt-5.2'' \<rparr>
   \<and> (\<exists>c. handleToolPlanningStream sample_parser sample_env tool_request = [Data c, Done]
          \<and> chunk_delta c = ContentDelta (JStr ''hello'') \<and> finish_reason c = Some ''stop'')"
proof -
  have a: "messages plain_request = Some [user_message ''hi'']
     \<and> thrown (streamChatGenerator sample_env (effective_model sample_env plain_request)
               (convert_messages [user_message ''hi''])) = None"
    by (simp add: plain_request_def streamChatGenerator_def sample_env_def)
  have b: "claimed_stream_shape (createStreamingResponse sample_env plain_request)"
    using streaming_shapes [of plain_request sample_env sample_parser] a by blast
  obtain c where c: "handleToolPlanningStream sample_parser sample_env tool_request = [Data c, Done]"
    and d: "(case plan \<lparr> plan = None, plan_content = ''hello'', plan_model = ''gpt-5.2'' \<rparr> of
               Some (ToolCall tcs) \<Rightarrow>
                 chunk_delta c = ToolCallsDelta (map_tool_calls sample_env True tcs)
                 \<and> finish_reason c = Some ''tool_calls''
             | other \<Rightarrow>
                 chunk_delta c
                   = ContentDelta (final_text \<lparr> plan = None, plan_content = ''hello'', plan_model = ''gpt-5.2'' \<rparr>)
                 \<and> finish_reason c = Some ''stop'')"
    using streaming_shapes [of tool_request sample_env sample_parser] sample_plan by blast
  from d have "chunk_delta c = ContentDelta (JStr ''hello'') \<and> finish_reason c = Some ''stop''"
    by (simp add: final_text_def)
  with a b c sample_plan show ?thesis by blast
qed

text \<open>
  Claim C4 as stated fails on the tool-planning path: the chunk before [DONE]
  carries the content.
\<close>

theorem tool_stream_counterexample:
  "handleToolPlanningStream sample_parser sample_env tool_request
     = [Data \<lparr> chunk_id = WindsurfTools 1700000000000, chunk_object = ''chat.completion.chunk'',
               chunk_created = 1700000000, chunk_model = ''gpt-5.2'',
               chunk_delta = ContentDelta (JStr ''hello''), finish_reason = Some ''stop'' \<rparr>,
        Done]
   \<and> \<not> claimed_stream_shape (handleToolPlanningStream sample_parser sample_env tool_request)"
proof -
  obtain p where p: "buildToolPrompt sample_env tool_request = Inr p"
    using prompt_exists [of tool_request _ sample_env] by (auto simp: tool_request_def)
  have "planToolCall sample_parser sample_env tool_request
          = Inr \<lparr> plan = None, plan_content = ''hello'', plan_model = ''gpt-5.2'' \<rparr>"
    by (simp add: planToolCall_def p runWindsurfOnce_def streamChatGenerator_def hello_plan
          requested_model_def or_else_def)
       (simp add: sample_env_def tool_request_def hello_plan)
  then have "handleToolPlanningStream sample_parser sample_env tool_request
     = [Data \<lparr> chunk_id = WindsurfTools 1700000000000, chunk_object = ''chat.completion.chunk'',
               chunk_created = 1700000000, chunk_model = ''gpt-5.2'',
               chunk_delta = ContentDelta (JStr ''hello''), finish_reason = Some ''stop'' \<rparr>,
        Done]"
    by (simp add: handleToolPlanningStream_def final_text_def sample_env_def)
  then show ?thesis by (simp add: claimed_stream_shape_def)
qed

subsection \<open>What reaches the Cascade client\<close>

lemma outbound_of_converted:
  "outboundText (convert_messages ms)
     = (if claimed_outbound ms = [] then ''Hello'' else claimed_outbound ms)"
proof -
  have "map cm_content (filter (\<lambda>m. cm_role m = r) (convert_messages ms))
      = map (\<lambda>m. flatten_content (content m)) (filter (\<lambda>m. role m = r) ms)"
    if "r \<noteq> ''assistant''" and "r \<noteq> ''tool''" for r
    using that by (induction ms) (auto simp: convert_messages_def)
  then show ?thesis
    by (simp add: outboundText_def claimed_outbound_def Let_def)
qed

lemma str_includes_iff: "str_includes s sub \<longleftrightarrow> (\<exists>p q. s = p @ sub @ q)"
proof (induction s)
  case Nil
  then show ?case by auto
next
  case (Cons c cs)
  show ?case
  proof
    assume "str_includes (c # cs) sub"
    then consider "prefix sub (c # cs)" | "str_includes cs sub" by auto
    then show "\<exists>p q. c # cs = p @ sub @ q"
    proof cases
      case 1
      then obtain q where "c # cs = sub @ q" by (auto simp: prefix_def)
      then have "c # cs = [] @ sub @ q" by simp
      then show ?thesis by blast
    next
      case 2
      with Cons.IH obtain p q where "cs = p @ sub @ q" by blast
      then have "c # cs = (c # p) @ sub @ q" by simp
      then show ?thesis by blast
    qed
  next
    assume "\<exists>p q. c # cs = p @ sub @ q"
    then obtain p q where e: "c # cs = p @ sub @ q" by blast
    show "str_includes (c # cs) sub"
    proof (cases p)
      case Nil
      with e have "prefix sub (c # cs)" by (simp add: prefix_def)
      then show ?thesis by simp
    next
      case (Cons a p')
      with e have "cs = p' @ sub @ q" by simp
      with Cons.IH have "str_includes cs sub" by blast
      then show ?thesis by simp
    qed
  qed
qed

lemma str_includes_trans:
  assumes "str_includes a b" and "str_includes b c"
  shows "str_includes a c"
proof -
  from assms obtain p q p' q' where "a = p @ b @ q" and "b = p' @ c @ q'"
    by (auto simp: str_includes_iff)
  then have "a = (p @ p') @ c @ (q' @ q)" by simp
  then show ?thesis unfolding str_includes_iff by blast
qed

lemma join_includes: "x \<in> set xs \<Longrightarrow> str_includes (join sep xs) x"
proof (induction sep xs rule: join.induct)
  case (1 sep)
  then show ?case by simp
next
  case (2 sep y)
  then have "join sep [y] = [] @ x @ []" by simp
  then show ?case unfolding str_includes_iff by blast
next
  case (3 sep y z zs)
  show ?case
  proof (cases "x = y")
    case True
    then have "join sep (y # z # zs) = [] @ x @ (sep @ join sep (z # zs))" by simp
    then show ?thesis unfolding str_includes_iff by blast
  next
    case False
    with 3 have "str_includes (join sep (z # zs)) x" by simp
    then obtain p q where "join sep (z # zs) = p @ x @ q" by (auto simp: str_includes_iff)
    then have "join sep (y # z # zs) = (y @ sep @ p) @ x @ q" by simp
    then show ?thesis unfolding str_includes_iff by blast
  qed
qed

lemma join_non_empty_includes: "x \<in> set L \<Longrightarrow> str_includes (join sep (non_empty L)) x"
proof (cases "x = []")
  case True
  then have "join sep (non_empty L) = [] @ x @ join sep (non_empty L)" by simp
  then show ?thesis unfolding str_includes_iff by blast
next
  case False
  assume "x \<in> set L"
  with False have "x \<in> set (non_empty L)" by (simp add: non_empty_def)
  then show ?thesis by (rule join_includes)
qed

lemma includes_nonempty: "str_includes s x \<Longrightarrow> x \<noteq> [] \<Longrightarrow> s \<noteq> []"
  by (auto simp: str_includes_iff)

lemma buildToolPrompt_form:
  assumes "messages request = Some ms"
  shows "\<exists>L. buildToolPrompt E request = Inr (join nl (non_empty L))
            \<and> ''You are a tool-calling assistant running inside OpenCode.'' \<in> set L
            \<and> join (nl @ nl) (List.map_filter (conversationLine E) ms) \<in> set L"
  apply (simp only: buildToolPrompt_def Let_def assms option.case)
  apply (rule exI, rule conjI, rule refl)
  apply simp
  done

text \<open>The planner prompt is not empty and contains every conversation line.\<close>

lemma prompt_shape:
  assumes "messages request = Some ms"
  shows "\<exists>prompt. buildToolPrompt E request = Inr prompt \<and> prompt \<noteq> []
           \<and> (\<forall>m \<in> set ms. \<forall>l. conversationLine E m = Some l \<longrightarrow> str_includes prompt l)"
proof -
  define J where "J = join (nl @ nl) (List.map_filter (conversationLine E) ms)"
  from buildToolPrompt_form [OF assms, of E] obtain L where
    p: "buildToolPrompt E request = Inr (join nl (non_empty L))"
    and h: "''You are a tool-calling assistant running inside OpenCode.'' \<in> set L"
    and j: "J \<in> set L"
    unfolding J_def by blast
  let ?prompt = "join nl (non_empty L)"
  from h have "str_includes ?prompt ''You are a tool-calling assistant running inside OpenCode.''"
    by (rule join_non_empty_includes)
  then have ne: "?prompt \<noteq> []" by (rule includes_nonempty) simp
  from j have pj: "str_includes ?prompt J" by (rule join_non_empty_includes)
  have inc: "str_includes ?prompt l" if "m \<in> set ms" and "conversationLine E m = Some l" for m l
  proof -
    from that have "l \<in> set (List.map_filter (conversationLine E) ms)"
      by (auto simp: set_map_filter)
    then have "str_includes J l" unfolding J_def by (rule join_includes)
    with pj show ?thesis by (blast intro: str_includes_trans)
  qed
  from p ne inc show ?thesis by blast
qed

lemma tool_line:
  "role m = ''tool'' \<Longrightarrow>
   conversationLine E m
     = Some (''TOOL RESULT ('' @ or_else (msg_name m) ''tool''
             @ (case tool_call_id m of
                  None \<Rightarrow> ''''
                | Some i \<Rightarrow> if i = [] then '''' else '', id='' @ i)
             @ ''): '' @ extractTextParts (content m))"
  by (simp add: conversationLine_def)

lemma assistant_line:
  "role m = ''assistant'' \<Longrightarrow>
   conversationLine E m
     = (case tool_calls m of
          Some (JArr xs) \<Rightarrow> Some (''ASSISTANT TOOL_CALLS: '' @ stringify E (JArr xs))
        | other \<Rightarrow>
            if extractTextParts (content m) = [] then None
            else Some (''ASSISTANT: '' @ extractTextParts (content m)))"
  by (simp add: conversationLine_def toUpperCase_def Let_def split: option.splits jsval.splits)

lemma plain_streaming_outcome:
  assumes "messages request = Some ms"
  shows "createStreamingResponse E request
     = (let g = cascade E (effective_model E request)
                  (if claimed_outbound ms = [] then ''Hello'' else claimed_outbound ms)
        in concat (map (\<lambda>c. as_chunk (createOpenAICompatibleResponse E (ChatCmpl (uuid E))
                                         (requested_model E request) c True None))
                     (yielded g))
           @ (case thrown g of
                Some err \<Rightarrow> [ErrorData (error_message err)]
              | None \<Rightarrow> as_chunk (createOpenAICompatibleResponse E (ChatCmpl (uuid E))
                                    (requested_model E request) '''' True (Some ''stop''))
                        @ [Done]))"
  using assms
  by (simp add: createStreamingResponse_def streamChatGenerator_def outbound_of_converted Let_def
        split: option.splits)

lemma plain_outcome:
  assumes "messages request = Some ms"
  shows "createNonStreamingResponse E request
     = (let g = cascade E (effective_model E request)
                  (if claimed_outbound ms = [] then ''Hello'' else claimed_outbound ms)
        in case thrown g of
             Some err \<Rightarrow> Inl err
           | None \<Rightarrow> Inr (createOpenAICompatibleResponse E (ChatCmpl (uuid E))
                            (requested_model E request) (concat (yielded g)) False
                            (Some ''stop'')))"
  using assms
  by (simp add: createNonStreamingResponse_def streamChatGenerator_def outbound_of_converted
        Let_def)

lemma planner_outcome:
  assumes "prompt \<noteq> []"
  shows "runWindsurfOnce E mdl prompt
     = (let g = cascade E mdl prompt
        in case thrown g of Some err \<Rightarrow> Inl err | None \<Rightarrow> Inr (concat (yielded g)))"
  using assms
  by (simp add: runWindsurfOnce_def streamChatGenerator_def outboundText_def Let_def)

text \<open>
  Claim C7, amended. On the plain paths (createStreamingResponse and
  createNonStreamingResponse) the message list handed to the Cascade client holds no
  assistant and no tool message, the text that the client sends is the system contents
  followed by the user contents, joined by blank lines, or "Hello" when that text is
  empty, and the response of either handler is built from the language server's outcome
  for that text. On the tool-planning paths (planToolCall through runWindsurfOnce) the
  client is handed a single user message that holds the planner prompt of
  buildToolPrompt, and the text sent is that prompt: it is not empty and it contains
  the line of every message of the conversation that has one, among them the line
  "TOOL RESULT (name, id): content" of every tool message and the line
  "ASSISTANT: content" or "ASSISTANT TOOL_CALLS: calls" of an assistant message.
\<close>

theorem forwarded_messages:
  "(\<forall>m \<in> set (convert_messages ms). cm_role m \<noteq> ''assistant'' \<and> cm_role m \<noteq> ''tool'')
   \<and> streamChatGenerator E mdl (convert_messages ms)
       = cascade E mdl (if claimed_outbound ms = [] then ''Hello'' else claimed_outbound ms)
   \<and> streamChatGenerator E mdl [\<lparr> cm_role = ''user'', cm_content = prompt \<rparr>]
       = cascade E mdl (if prompt = [] then ''Hello'' else prompt)
   \<and> (messages request = Some ms \<longrightarrow>
        (let g = cascade E (effective_model E request)
                   (if claimed_outbound ms = [] then ''Hello'' else claimed_outbound ms)
         in createStreamingResponse E request
              = concat (map (\<lambda>c. as_chunk (createOpenAICompatibleResponse E (ChatCmpl (uuid E))
                                              (requested_model E request) c True None))
                          (yielded g))
                @ (case thrown g of
                     Some err \<Rightarrow> [ErrorData (error_message err)]
                   | None \<Rightarrow> as_chunk (createOpenAICompatibleResponse E (ChatCmpl (uuid E))
                                         (requested_model E request) '''' True (Some ''stop''))
                             @ [Done])
            \<and> createNonStreamingResponse E request
                = (case thrown g of
                     Some err \<Rightarrow> Inl err
                   | None \<Rightarrow> Inr (createOpenAICompatibleResponse E (ChatCmpl (uuid E))
                                    (requested_model E request) (concat (yielded g)) False
                                    (Some ''stop'')))))
   \<and> (messages request = Some ms \<longrightarrow>
        (\<exists>p. buildToolPrompt E request = Inr p \<and> p \<noteq> []
           \<and> (\<forall>m \<in> set ms. \<forall>l. conversationLine E m = Some l \<longrightarrow> str_includes p l)
           \<and> (let g = cascade E (requested_model E request) p
              in streamChatGenerator E (requested_model E request)
                   [\<lparr> cm_role = ''user'', cm_content = p \<rparr>] = g
               \<and> runWindsurfOnce E (requested_model E request) p
                   = (case thrown g of Some err \<Rightarrow> Inl err | None \<Rightarrow> Inr (concat (yielded g)))
               \<and> planToolCall P E request
                   = (case thrown g of
                        Some err \<Rightarrow> Inl err
                      | None \<Rightarrow>
                          (case parseToolCallPlan P (concat (yielded g)) of
                             Inl e \<Rightarrow> Inl e
                           | Inr pl \<Rightarrow> Inr \<lparr> plan = pl, plan_content = concat (yielded g),
                                             plan_model = requested_model E request \<rparr>)))))
   \<and> (\<forall>m. role m = ''tool'' \<longrightarrow>
          conversationLine E m
            = Some (''TOOL RESULT ('' @ or_else (msg_name m) ''tool''
                    @ (case tool_call_id m of
                         None \<Rightarrow> ''''
                       | Some i \<Rightarrow> if i = [] then '''' else '', id='' @ i)
                    @ ''): '' @ extractTextParts (content m)))
   \<and> (\<forall>m. role m = ''assistant'' \<longrightarrow>
          conversationLine E m
            = (case tool_calls m of
                 Some (JArr xs) \<Rightarrow> Some (''ASSISTANT TOOL_CALLS: '' @ stringify E (JArr xs))
               | other \<Rightarrow>
                   if extractTextParts (content m) = [] then None
                   else Some (''ASSISTANT: '' @ extractTextParts (content m))))"
proof (intro conjI)
  show "\<forall>m \<in> set (convert_messages ms). cm_role m \<noteq> ''assistant'' \<and> cm_role m \<noteq> ''tool''"
    by (auto simp: convert_messages_def)
  show "streamChatGenerator E mdl (convert_messages ms)
       = cascade E mdl (if claimed_outbound ms = [] then ''Hello'' else claimed_outbound ms)"
    by (simp add: streamChatGenerator_def outbound_of_converted)
  show "streamChatGenerator E mdl [\<lparr> cm_role = ''user'', cm_content = prompt \<rparr>]
       = cascade E mdl (if prompt = [] then ''Hello'' else prompt)"
    by (simp add: streamChatGenerator_def outboundText_def)
  show "messages request = Some ms \<longrightarrow>
        (let g = cascade E (effective_model E request)
                   (if claimed_outbound ms = [] then ''Hello'' else claimed_outbound ms)
         in createStreamingResponse E request
              = concat (map (\<lambda>c. as_chunk (createOpenAICompatibleResponse E (ChatCmpl (uuid E))
                                              (requested_model E request) c True None))
                          (yielded g))
                @ (case thrown g of
                     Some err \<Rightarrow> [ErrorData (error_message err)]
                   | None \<Rightarrow> as_chunk (createOpenAICompatibleResponse E (ChatCmpl (uuid E))
                                         (requested_model E request) '''' True (Some ''stop''))
                             @ [Done])
            \<and> createNonStreamingResponse E request
                = (case thrown g of
                     Some err \<Rightarrow> Inl err
                   | None \<Rightarrow> Inr (createOpenAICompatibleResponse E (ChatCmpl (uuid E))
                                    (requested_model E request) (concat (yielded g)) False
                                    (Some ''stop''))))"
    using plain_streaming_outcome [of request ms E] plain_outcome [of request ms E]
    by (simp add: Let_def)
  show "messages request = Some ms \<longrightarrow>
        (\<exists>p. buildToolPrompt E request = Inr p \<and> p \<noteq> []
           \<and> (\<forall>m \<in> set ms. \<forall>l. conversationLine E m = Some l \<longrightarrow> str_includes p l)
           \<and> (let g = cascade E (requested_model E request) p
              in streamChatGenerator E (requested_model E request)
                   [\<lparr> cm_role = ''user'', cm_content = p \<rparr>] = g
               \<and> runWindsurfOnce E (requested_model E request) p
                   = (case thrown g of Some err \<Rightarrow> Inl err | None \<Rightarrow> Inr (concat (yielded g)))
               \<and> planToolCall P E request
                   = (case thrown g of
                        Some err \<Rightarrow> Inl err
                      | None \<Rightarrow>
                          (case parseToolCallPlan P (concat (yielded g)) of
                             Inl e \<Rightarrow> Inl e
                           | Inr pl \<Rightarrow> Inr \<lparr> plan = pl, plan_content = concat (yielded g),
                                             plan_model = requested_model E request \<rparr>))))"
  proof
    assume ms: "messages request = Some ms"
    from prompt_shape [OF ms, of E] obtain p where
      p: "buildToolPrompt E request = Inr p" and ne: "p \<noteq> []"
      and inc: "\<forall>m \<in> set ms. \<forall>l. conversationLine E m = Some l \<longrightarrow> str_includes p l"
      by blast
    define g where "g = cascade E (requested_model E request) p"
    from ne have s: "streamChatGenerator E (requested_model E request)
                       [\<lparr> cm_role = ''user'', cm_content = p \<rparr>] = g"
      by (simp add: streamChatGenerator_def outboundText_def g_def)
    from ne have r: "runWindsurfOnce E (requested_model E request) p
        = (case thrown g of Some err \<Rightarrow> Inl err | None \<Rightarrow> Inr (concat (yielded g)))"
      unfolding g_def by (simp add: planner_outcome Let_def)
    have pl: "planToolCall P E request
        = (case thrown g of
             Some err \<Rightarrow> Inl err
           | None \<Rightarrow>
               (case parseToolCallPlan P (concat (yielded g)) of
                  Inl e \<Rightarrow> Inl e
                | Inr pl \<Rightarrow> Inr \<lparr> plan = pl, plan_content = concat (yielded g),
                                  plan_model = requested_model E request \<rparr>))"
      by (simp add: planToolCall_def p r Let_def split: option.splits)
    from p ne inc s r pl show "\<exists>p. buildToolPrompt E request = Inr p \<and> p \<noteq> []
           \<and> (\<forall>m \<in> set ms. \<forall>l. conversationLine E m = Some l \<longrightarrow> str_includes p l)
           \<and> (let g = cascade E (requested_model E request) p
              in streamChatGenerator E (requested_model E request)
                   [\<lparr> cm_role = ''user'', cm_content = p \<rparr>] = g
               \<and> runWindsurfOnce E (requested_model E request) p
                   = (case thrown g of Some err \<Rightarrow> Inl err | None \<Rightarrow> Inr (concat (yielded g)))
               \<and> planToolCall P E request
                   = (case thrown g of
                        Some err \<Rightarrow> Inl err
                      | None \<Rightarrow>
                          (case parseToolCallPlan P (concat (yielded g)) of
                             Inl e \<Rightarrow> Inl e
                           | Inr pl \<Rightarrow> Inr \<lparr> plan = pl, plan_content = concat (yielded g),
                                             plan_model = requested_model E request \<rparr>)))"
      unfolding g_def Let_def by blast
  qed
  show "\<forall>m. role m = ''tool'' \<longrightarrow>
          conversationLine E m
            = Some (''TOOL RESULT ('' @ or_else (msg_name m) ''tool''
                    @ (case tool_call_id m of
                         None \<Rightarrow> ''''
                       | Some i \<Rightarrow> if i = [] then '''' else '', id='' @ i)
                    @ ''): '' @ extractTextParts (content m))"
    by (simp add: tool_line)
  show "\<forall>m. role m = ''assistant'' \<longrightarrow>
          conversationLine E m
            = (case tool_calls m of
                 Some (JArr xs) \<Rightarrow> Some (''ASSISTANT TOOL_CALLS: '' @ stringify E (JArr xs))
               | other \<Rightarrow>
                   if extractTextParts (content m) = [] then None
                   else Some (''ASSISTANT: '' @ extractTextParts (content m)))"
    by (simp add: assistant_line)
qed

theorem forwarded_messages_witness:
  "messages mixed_request = Some mixed_messages
   \<and> convert_messages mixed_messages
     = [\<lparr> cm_role = ''user'', cm_content = ''hi'' \<rparr>,
        \<lparr> cm_role = ''system'', cm_content = ''be brief'' \<rparr>]
   \<and> list_all (\<lambda>m. cm_role m \<noteq> ''assistant'' \<and> cm_role m \<noteq> ''tool'')
         (convert_messages mixed_messages)
   \<and> claimed_outbound mixed_messages = ''be brief'' @ nl @ nl @ ''hi''
   \<and> streamChatGenerator sample_env ''gpt-5.2'' (convert_messages mixed_messages)
       = cascade sample_env ''gpt-5.2'' (''be brief'' @ nl @ nl @ ''hi'')
   \<and> (\<exists>p. buildToolPrompt sample_env mixed_request = Inr p
         \<and> str_includes p ''TOOL RESULT (tool): tool-secret''
         \<and> str_includes p ''ASSISTANT: earlier answer'')"
proof -
  note inst = forwarded_messages
    [of mixed_messages sample_env "''gpt-5.2''" "''p''" mixed_request sample_parser]
  have r: "messages mixed_request = Some mixed_messages"
    by (simp add: mixed_request_def)
  have a: "convert_messages mixed_messages
     = [\<lparr> cm_role = ''user'', cm_content = ''hi'' \<rparr>,
        \<lparr> cm_role = ''system'', cm_content = ''be brief'' \<rparr>]"
    by (simp add: convert_messages_def mixed_messages_def flatten_content_def)
  have b: "claimed_outbound mixed_messages = ''be brief'' @ nl @ nl @ ''hi''"
    by (simp add: claimed_outbound_def mixed_messages_def flatten_content_def)
  have c: "claimed_outbound mixed_messages \<noteq> []"
    by (simp add: b)
  have d: "(\<forall>m \<in> set (convert_messages mixed_messages). cm_role m \<noteq> ''assistant'' \<and> cm_role m \<noteq> ''tool'')"
    and e: "streamChatGenerator sample_env ''gpt-5.2'' (convert_messages mixed_messages)
       = cascade sample_env ''gpt-5.2''
           (if claimed_outbound mixed_messages = [] then ''Hello'' else claimed_outbound mixed_messages)"
    using inst by blast+
  from d have d': "list_all (\<lambda>m. cm_role m \<noteq> ''assistant'' \<and> cm_role m \<noteq> ''tool'')
         (convert_messages mixed_messages)"
    by (simp only: list_all_iff)
  from e c have "streamChatGenerator sample_env ''gpt-5.2'' (convert_messages mixed_messages)
       = cascade sample_env ''gpt-5.2'' (claimed_outbound mixed_messages)"
    by (simp only: if_False)
  then have e': "streamChatGenerator sample_env ''gpt-5.2'' (convert_messages mixed_messages)
       = cascade sample_env ''gpt-5.2'' (''be brief'' @ nl @ nl @ ''hi'')"
    by (simp only: b)
  define tm where "tm = \<lparr> role = ''tool'', content = CString ''tool-secret'', msg_name = None,
        tool_call_id = None, tool_calls = None \<rparr>"
  define am where "am = \<lparr> role = ''assistant'', content = CString ''earlier answer'',
        msg_name = None, tool_call_id = None, tool_calls = None \<rparr>"
  have mem: "tm \<in> set mixed_messages" "am \<in> set mixed_messages"
    by (simp_all add: mixed_messages_def tm_def am_def)
  from inst have "role tm = ''tool'' \<longrightarrow>
      conversationLine sample_env tm
        = Some (''TOOL RESULT ('' @ or_else (msg_name tm) ''tool''
                @ (case tool_call_id tm of
                     None \<Rightarrow> ''''
                   | Some i \<Rightarrow> if i = [] then '''' else '', id='' @ i)
                @ ''): '' @ extractTextParts (content tm))"
    by blast
  then have tl: "conversationLine sample_env tm = Some ''TOOL RESULT (tool): tool-secret''"
    by (simp add: tm_def or_else_def extractTextParts_def)
  from inst have "role am = ''assistant'' \<longrightarrow>
      conversationLine sample_env am
        = (case tool_calls am of
             Some (JArr xs) \<Rightarrow> Some (''ASSISTANT TOOL_CALLS: '' @ stringify sample_env (JArr xs))
           | other \<Rightarrow>
               if extractTextParts (content am) = [] then None
               else Some (''ASSISTANT: '' @ extractTextParts (content am)))"
    by blast
  then have al: "conversationLine sample_env am = Some ''ASSISTANT: earlier answer''"
    by (simp add: am_def extractTextParts_def)
  from inst r obtain p where
    p: "buildToolPrompt sample_env mixed_request = Inr p"
    and inc: "\<forall>m \<in> set mixed_messages. \<forall>l. conversationLine sample_env m = Some l
                 \<longrightarrow> str_includes p l"
    by blast
  from inc mem tl al have "str_includes p ''TOOL RESULT (tool): tool-secret''"
    and "str_includes p ''ASSISTANT: earlier answer''"
    by blast+
  with p have f: "\<exists>p. buildToolPrompt sample_env mixed_request = Inr p
         \<and> str_includes p ''TOOL RESULT (tool): tool-secret''
         \<and> str_includes p ''ASSISTANT: earlier answer''"
    by blast
  from r a b d' e' f show ?thesis by blast
qed

lemma probe_plan:
  "planToolCall sample_parser probe_env tool_request
     = Inr \<lparr> plan = None, plan_content = ''leaked'', plan_model = ''gpt-5.2'' \<rparr>"
proof -
  have "parseToolCallPlan sample_parser ''leaked'' = Inr None"
    by (simp add: parseToolCallPlan_def indexOf_def)
  moreover have "\<exists>p. buildToolPrompt probe_env tool_request = Inr p \<and> str_includes p ''tool-secret''"
    by (simp add: buildToolPrompt_def tool_request_def user_message_def tool_message_def
          conversationLine_def extractTextParts_def or_else_def toUpperCase_def non_empty_def
          nl_def List.map_filter_simps Let_def)
  ultimately show ?thesis
    by (auto simp: planToolCall_def runWindsurfOnce_def streamChatGenerator_def outboundText_def
          requested_model_def or_else_def probe_env_def tool_request_def)
qed

text \<open>
  Claim C7 as stated fails on the tool-planning path: the content of a tool message
  is part of the text that the language server receives.
\<close>

theorem tool_prompt_counterexample:
  "hasToolMessages tool_request
   \<and> messages tool_request = Some [user_message ''hi'', tool_message ''tool-secret'']
   \<and> \<not> str_includes (claimed_outbound [user_message ''hi'', tool_message ''tool-secret'']) ''tool-secret''
   \<and> handleToolPlanningStream sample_parser probe_env tool_request
       = [Data \<lparr> chunk_id = WindsurfTools 1700000000000, chunk_object = ''chat.completion.chunk'',
                 chunk_created = 1700000000, chunk_model = ''gpt-5.2'',
                 chunk_delta = ContentDelta (JStr ''leaked''), finish_reason = Some ''stop'' \<rparr>,
          Done]"
proof -
  have "handleToolPlanningStream sample_parser probe_env tool_request
       = [Data \<lparr> chunk_id = WindsurfTools 1700000000000, chunk_object = ''chat.completion.chunk'',
                 chunk_created = 1700000000, chunk_model = ''gpt-5.2'',
                 chunk_delta = ContentDelta (JStr ''leaked''), finish_reason = Some ''stop'' \<rparr>,
          Done]"
    by (simp add: handleToolPlanningStream_def probe_plan final_text_def)
       (simp add: probe_env_def)
  moreover have "hasToolMessages tool_request
      \<and> messages tool_request = Some [user_message ''hi'', tool_message ''tool-secret'']"
    by (simp add: hasToolMessages_def tool_request_def tool_message_def user_message_def)
  moreover have "\<not> str_includes (claimed_outbound [user_message ''hi'', tool_message ''tool-secret'']) ''tool-secret''"
    by (simp add: claimed_outbound_def tool_message_def user_message_def flatten_content_def)
  ultimately show ?thesis by blast
qed

subsection \<open>The model resolver\<close>

text \<open>
  Claim C6. Whatever the input, and so for every input that carries an inline
  variant after a colon or as a suffix, an override variant that is provided is the
  variant of the resolved model; in particular the input m:high, whose inline variant is
  high, resolves with the override low to the variant low.
\<close>

theorem override_wins:
  "variant (spec_resolveModel reg input (Some ov)) = Some ov
   \<and> snd (parse_variant reg ''m:high'') = Some ''high''
   \<and> variant (spec_resolveModel reg ''m:high'' (Some ''low'')) = Some ''low''"
proof -
  have "variant (spec_resolveModel reg i (Some v)) = Some v" for i v
    by (simp add: spec_resolveModel_def Let_def split: option.splits)
  moreover have "snd (parse_variant reg ''m:high'') = Some ''high''"
    by (simp add: parse_variant_def split_colon_def)
  ultimately show ?thesis by blast
qed

end
